theory Spec2Isabelle
  imports Complex_Main "HOL-Library.Multiset" "HOL-Library.Char_ord" "HOL-Library.List_Lexorder"
    "HOL-Library.Product_Lexorder"
begin

section \<open>Python values used by the evaluator\<close>

text \<open>
  The evaluator (\<^verbatim>\<open>profile_and_evaluate.py\<close>) works on Python strings, integers,
  floats and dictionaries. Integers are unbounded (\<open>int\<close>, or \<open>nat\<close> for counts).
  A finite float is modelled by the rational number it denotes; every float
  operation rounds its exact result to the nearest double (ties to even), which
  is what \<open>fl_round\<close> computes.
\<close>

fun bit_length :: "nat \<Rightarrow> nat" where
  "bit_length n = (if n = 0 then 0 else Suc (bit_length (n div 2)))"

declare bit_length.simps [simp del]

definition pow2 :: "int \<Rightarrow> rat" where
  "pow2 k = (if 0 \<le> k then 2 ^ nat k else 1 / 2 ^ nat (- k))"

text \<open>\<open>ilog2 a\<close> is the exponent \<open>e\<close> with \<open>2^e \<le> a < 2^(e+1)\<close>, for \<open>a > 0\<close>.\<close>

definition ilog2 :: "rat \<Rightarrow> int" where
  "ilog2 a = (if 1 \<le> a then int (bit_length (nat \<lfloor>a\<rfloor>)) - 1
              else - int (bit_length (nat (\<lceil>1 / a\<rceil> - 1))))"

text \<open>Python's \<^verbatim>\<open>round(x)\<close> on a float: the nearest integer, ties to the even one.\<close>

definition round_half_even :: "rat \<Rightarrow> int" where
  "round_half_even q =
     (let f = \<lfloor>q\<rfloor>; d = q - of_int f
      in if d < 1 / 2 then f else if 1 / 2 < d then f + 1
         else if even f then f else f + 1)"

text \<open>
  Rounding to binary64: 53 significant bits, gradual underflow below \<open>2^-1022\<close>.
  The result is not yet checked against the largest double; \<open>fl_overflows\<close> does that.
\<close>

definition fl_round :: "rat \<Rightarrow> rat" where
  "fl_round q =
     (if q = 0 then 0
      else let a = \<bar>q\<bar>;
               e = max (ilog2 a) (- 1022);
               ulp = pow2 (e - 52)
           in sgn q * of_int (round_half_even (a / ulp)) * ulp)"

definition fl_overflows :: "rat \<Rightarrow> bool" where
  "fl_overflows q = (2 ^ 1024 \<le> \<bar>fl_round q\<bar>)"

text \<open>\<^verbatim>\<open>a / b\<close> on two Python integers (true division, correctly rounded), \<open>b \<noteq> 0\<close>.\<close>

definition py_truediv :: "nat \<Rightarrow> nat \<Rightarrow> rat" where
  "py_truediv a b = fl_round (of_nat a / of_nat b)"

text \<open>
  \<^verbatim>\<open>x or y\<close> on optional strings: a missing value (\<^verbatim>\<open>None\<close>) and the empty
  string are falsy.
\<close>

definition truthy :: "string option \<Rightarrow> bool" where
  "truthy v = (case v of None \<Rightarrow> False | Some s \<Rightarrow> s \<noteq> [])"

definition py_or :: "string option \<Rightarrow> string option \<Rightarrow> string option" where
  "py_or a b = (if truthy a then a else b)"

text \<open>
  Strings are lists of characters with code points below 256 (Latin-1). \<open>is_space\<close> is
  \<^verbatim>\<open>str.isspace\<close> and \<open>is_digit\<close> is \<^verbatim>\<open>str.isdigit\<close> on these characters. The
  letters with two cases are A-Z, a-z and the accented letters \<open>0xC0-0xDE\<close> and
  \<open>0xE0-0xFE\<close> (without the signs \<open>0xD7\<close> and \<open>0xF7\<close>).
\<close>

definition is_space :: "char \<Rightarrow> bool" where
  "is_space c = (of_char c \<in> {9, 10, 11, 12, 13, 28, 29, 30, 31, 32, 133, 160 :: nat})"

definition is_digit :: "char \<Rightarrow> bool" where
  "is_digit c = (of_char c \<in> {48, 49, 50, 51, 52, 53, 54, 55, 56, 57, 178, 179, 185 :: nat})"

definition upper_letters :: "char list" where
  "upper_letters =
     ''ABCDEFGHIJKLMNOPQRSTUVWXYZ'' @
     [
      CHR 0xC0, CHR 0xC1, CHR 0xC2, CHR 0xC3, CHR 0xC4, CHR 0xC5, CHR 0xC6, CHR 0xC7,
      CHR 0xC8, CHR 0xC9, CHR 0xCA, CHR 0xCB, CHR 0xCC, CHR 0xCD, CHR 0xCE, CHR 0xCF,
      CHR 0xD0, CHR 0xD1, CHR 0xD2, CHR 0xD3, CHR 0xD4, CHR 0xD5, CHR 0xD6, CHR 0xD8,
      CHR 0xD9, CHR 0xDA, CHR 0xDB, CHR 0xDC, CHR 0xDD, CHR 0xDE]"

definition lower_letters :: "char list" where
  "lower_letters =
     ''abcdefghijklmnopqrstuvwxyz'' @
     [
      CHR 0xE0, CHR 0xE1, CHR 0xE2, CHR 0xE3, CHR 0xE4, CHR 0xE5, CHR 0xE6, CHR 0xE7,
      CHR 0xE8, CHR 0xE9, CHR 0xEA, CHR 0xEB, CHR 0xEC, CHR 0xED, CHR 0xEE, CHR 0xEF,
      CHR 0xF0, CHR 0xF1, CHR 0xF2, CHR 0xF3, CHR 0xF4, CHR 0xF5, CHR 0xF6, CHR 0xF8,
      CHR 0xF9, CHR 0xFA, CHR 0xFB, CHR 0xFC, CHR 0xFD, CHR 0xFE]"

text \<open>\<^verbatim>\<open>s.lower()\<close>: every upper-case letter has its lower-case letter in the range.\<close>

definition lower_char :: "char \<Rightarrow> char" where
  "lower_char c = (case map_of (zip upper_letters lower_letters) c of Some l \<Rightarrow> l | None \<Rightarrow> c)"

definition lower :: "string \<Rightarrow> string" where
  "lower s = map lower_char s"

text \<open>
  \<^verbatim>\<open>s.upper()\<close> leaves the range: the micro sign becomes the Greek capital mu
  (\<open>0x39C\<close>), the sharp s becomes \<^verbatim>\<open>SS\<close> and the y with diaeresis becomes \<open>0x178\<close>. An
  upper-cased string is therefore a list of code points.
\<close>

type_synonym code_points = "nat list"

definition upper_char :: "char \<Rightarrow> code_points" where
  "upper_char c =
     (if c = CHR 0xB5 then [0x39C]
      else if c = CHR 0xDF then [0x53, 0x53]
      else if c = CHR 0xFF then [0x178]
      else case map_of (zip lower_letters upper_letters) c of
             Some u \<Rightarrow> [of_char u]
           | None \<Rightarrow> [of_char c])"

definition upper :: "string \<Rightarrow> code_points" where
  "upper s = concat (map upper_char s)"

text \<open>\<^verbatim>\<open>s.strip()\<close>\<close>

definition strip :: "string \<Rightarrow> string" where
  "strip s = rev (dropWhile is_space (rev (dropWhile is_space s)))"

text \<open>\<^verbatim>\<open>s.startswith(p)\<close> and \<^verbatim>\<open>p in s\<close>\<close>

fun starts_with :: "string \<Rightarrow> string \<Rightarrow> bool" where
  "starts_with s [] = True"
| "starts_with [] (p # ps) = False"
| "starts_with (c # cs) (p # ps) = (c = p \<and> starts_with cs ps)"

fun contains :: "string \<Rightarrow> string \<Rightarrow> bool" where
  "contains [] p = (p = [])"
| "contains (c # cs) p = (starts_with (c # cs) p \<or> contains cs p)"

text \<open>\<^verbatim>\<open>s.split('.')[0]\<close>\<close>

definition before_first_dot :: "string \<Rightarrow> string" where
  "before_first_dot s = takeWhile (\<lambda>c. c \<noteq> CHR ''.'') s"

text \<open>The exceptions that the modelled code raises.\<close>

datatype py_error =
  ValueError | TypeError | OverflowError | RuntimeError | TimeoutError | KeyError
  | AttributeError | ConnectionError

text \<open>
  Floats with their special values, and the float operations of the threshold
  resolution: \<^verbatim>\<open>float(n)\<close> on an integer, \<^verbatim>\<open>x <= 1.0\<close>, \<^verbatim>\<open>x * 100\<close>, \<^verbatim>\<open>round(x)\<close>
  and \<^verbatim>\<open>int(x)\<close>.
\<close>

datatype pyfloat = Finite rat | PosInf | NegInf | NaN

definition float_of_int :: "int \<Rightarrow> py_error + pyfloat" where
  "float_of_int n =
     (if fl_overflows (of_int n) then Inl OverflowError else Inr (Finite (fl_round (of_int n))))"

definition le_one :: "pyfloat \<Rightarrow> bool" where
  "le_one f = (case f of Finite x \<Rightarrow> x \<le> 1 | PosInf \<Rightarrow> False | NegInf \<Rightarrow> True | NaN \<Rightarrow> False)"

definition times_100 :: "pyfloat \<Rightarrow> pyfloat" where
  "times_100 f =
     (case f of
        Finite x \<Rightarrow>
          if fl_overflows (x * 100) then (if 0 < x then PosInf else NegInf)
          else Finite (fl_round (x * 100))
      | PosInf \<Rightarrow> PosInf
      | NegInf \<Rightarrow> NegInf
      | NaN \<Rightarrow> NaN)"

definition py_round :: "pyfloat \<Rightarrow> py_error + int" where
  "py_round f =
     (case f of
        Finite x \<Rightarrow> Inr (round_half_even x)
      | PosInf \<Rightarrow> Inl OverflowError
      | NegInf \<Rightarrow> Inl OverflowError
      | NaN \<Rightarrow> Inl ValueError)"

definition int_of_float :: "pyfloat \<Rightarrow> py_error + int" where
  "int_of_float f =
     (case f of
        Finite x \<Rightarrow> Inr (if 0 \<le> x then \<lfloor>x\<rfloor> else \<lceil>x\<rceil>)
      | PosInf \<Rightarrow> Inl OverflowError
      | NegInf \<Rightarrow> Inl OverflowError
      | NaN \<Rightarrow> Inl ValueError)"

text \<open>
  A JSON value found under \<^verbatim>\<open>confidenceThreshold\<close>: a boolean, an integer, a float, or
  a value of another kind (a string, a list, an object), which carries what
  \<^verbatim>\<open>int(value)\<close> returns, \<open>None\<close> when that raises \<^verbatim>\<open>ValueError\<close> or \<^verbatim>\<open>TypeError\<close>.
\<close>

datatype pyval = PyBool bool | PyInt int | PyFloat pyfloat | PyNonNumeric "int option"

text \<open>
  A key of a JSON object whose \<^verbatim>\<open>null\<close> the evaluator treats differently from its
  absence: \<^verbatim>\<open>d.get(key, default)\<close> gives the default for an absent key and \<^verbatim>\<open>None\<close>
  for a \<^verbatim>\<open>null\<close>.
\<close>

datatype 'a json_field = Absent | Null | Present 'a

section \<open>Scoring engine\<close>

text \<open>
  One entry of a prediction map: the classification dictionary of a column, of which
  the evaluator reads the keys \<^verbatim>\<open>semantic_type\<close> and \<^verbatim>\<open>semanticType\<close>.
\<close>

record classification =
  semantic_type :: "string option"
  semanticType :: "string option"

text \<open>
  A prediction map is a Python dict; iterating it follows insertion order, so it is an
  association list (with distinct keys). The ground truth is only looked up by key.
\<close>

type_synonym predictions = "(string \<times> classification) list"
type_synonym ground_truth = "string \<rightharpoonup> string"

record detail =
  column :: string
  predicted :: string
  actual :: string
  correct :: bool

record metric_set =
  accuracy :: rat
  precision :: rat
  recall :: rat
  f1_score :: rat
  total_columns :: nat
  excluded_columns :: nat
  correct_predictions :: nat
  true_positives :: nat
  false_positives :: nat
  false_negatives :: nat
  details :: "detail list"

text \<open>
  \<^verbatim>\<open>classification.get('semantic_type') or classification.get('semanticType') or 'NONE'\<close>
\<close>

definition predicted_type_of :: "classification \<Rightarrow> string" where
  "predicted_type_of c =
     (case py_or (py_or (semantic_type c) (semanticType c)) (Some ''NONE'') of
        Some s \<Rightarrow> s | None \<Rightarrow> ''NONE'')"

text \<open>\<^verbatim>\<open>not true_type or true_type == 'nan'\<close>: the column has no usable label.\<close>

definition no_label :: "string option \<Rightarrow> bool" where
  "no_label t = (\<not> truthy t \<or> t = Some ''nan'')"

text \<open>The detail dictionary appended for a labelled column.\<close>

definition detail_of :: "string \<Rightarrow> classification \<Rightarrow> string \<Rightarrow> detail" where
  "detail_of col_name cl true_type =
     (let predicted_type = predicted_type_of cl
      in \<lparr>column = col_name, predicted = predicted_type, actual = true_type,
          correct = (predicted_type = true_type)\<rparr>)"

text \<open>
  \<^verbatim>\<open>_compute_classification_details\<close>: one pass over the prediction map, in its order;
  a column without label goes to the excluded list, every other one gets a detail.
\<close>

fun compute_classification_details ::
  "predictions \<Rightarrow> ground_truth \<Rightarrow> detail list \<times> string list" where
  "compute_classification_details [] gt = ([], [])"
| "compute_classification_details ((col_name, cl) # rest) gt =
     (let (results_detail, excluded) = compute_classification_details rest gt
      in case gt col_name of
           None \<Rightarrow> (results_detail, col_name # excluded)
         | Some true_type \<Rightarrow>
             if no_label (Some true_type) then (results_detail, col_name # excluded)
             else (detail_of col_name cl true_type # results_detail, excluded))"

text \<open>\<^verbatim>\<open>sum(1 for d in results_detail if P(d))\<close>\<close>

definition count_where :: "('a \<Rightarrow> bool) \<Rightarrow> 'a list \<Rightarrow> nat" where
  "count_where P xs = length (filter P xs)"

text \<open>\<^verbatim>\<open>a / b if b > 0 else 0\<close>\<close>

definition ratio_or_zero :: "nat \<Rightarrow> nat \<Rightarrow> rat" where
  "ratio_or_zero a b = (if 0 < b then py_truediv a b else 0)"

text \<open>\<^verbatim>\<open>2 * (precision * recall) / (precision + recall) if (precision + recall) > 0 else 0\<close>\<close>

definition f1_of :: "rat \<Rightarrow> rat \<Rightarrow> rat" where
  "f1_of p r =
     (if 0 < fl_round (p + r)
      then fl_round (fl_round (2 * fl_round (p * r)) / fl_round (p + r))
      else 0)"

text \<open>\<^verbatim>\<open>_calculate_metric_scores\<close>\<close>

definition calculate_metric_scores :: "detail list \<Rightarrow> nat \<Rightarrow> metric_set" where
  "calculate_metric_scores results_detail excluded_count =
     (let correct_n = count_where correct results_detail;
          tp = count_where (\<lambda>d. correct d \<and> predicted d \<noteq> ''NONE'') results_detail;
          fp = count_where (\<lambda>d. \<not> correct d \<and> predicted d \<noteq> ''NONE'') results_detail;
          fn = count_where (\<lambda>d. \<not> correct d \<and> actual d \<noteq> ''NONE'') results_detail;
          total = length results_detail;
          acc = ratio_or_zero correct_n total;
          prec = ratio_or_zero tp (tp + fp);
          rec = ratio_or_zero tp (tp + fn)
      in \<lparr>accuracy = acc, precision = prec, recall = rec, f1_score = f1_of prec rec,
          total_columns = total, excluded_columns = excluded_count,
          correct_predictions = correct_n, true_positives = tp,
          false_positives = fp, false_negatives = fn,
          details = results_detail\<rparr>)"

text \<open>
  The scoring contract \<^verbatim>\<open>score(predictions, ground_truth)\<close>, as every caller composes
  it: \<^verbatim>\<open>_calculate_metric_scores(results_detail, len(excluded_columns))\<close>.
\<close>

definition score :: "predictions \<Rightarrow> ground_truth \<Rightarrow> metric_set" where
  "score preds gt =
     (let (results_detail, excluded) = compute_classification_details preds gt
      in calculate_metric_scores results_detail (length excluded))"

text \<open>
  \<^verbatim>\<open>_aggregate_metrics_list\<close>: the loop adds the six counts of every metric set to
  \<^verbatim>\<open>sums\<close> and extends \<^verbatim>\<open>details\<close>; the ratios are computed afterwards from the sums.
\<close>

record count_sums =
  s_correct_predictions :: nat
  s_true_positives :: nat
  s_false_positives :: nat
  s_false_negatives :: nat
  s_total_columns :: nat
  s_excluded_columns :: nat

definition sums_zero :: count_sums where
  "sums_zero = \<lparr>s_correct_predictions = 0, s_true_positives = 0, s_false_positives = 0,
                s_false_negatives = 0, s_total_columns = 0, s_excluded_columns = 0\<rparr>"

definition add_counts :: "count_sums \<Rightarrow> metric_set \<Rightarrow> count_sums" where
  "add_counts s m =
     \<lparr>s_correct_predictions = s_correct_predictions s + correct_predictions m,
      s_true_positives = s_true_positives s + true_positives m,
      s_false_positives = s_false_positives s + false_positives m,
      s_false_negatives = s_false_negatives s + false_negatives m,
      s_total_columns = s_total_columns s + total_columns m,
      s_excluded_columns = s_excluded_columns s + excluded_columns m\<rparr>"

fun aggregate_loop :: "count_sums \<times> detail list \<Rightarrow> metric_set list \<Rightarrow> count_sums \<times> detail list" where
  "aggregate_loop acc [] = acc"
| "aggregate_loop (s, ds) (m # ms) = aggregate_loop (add_counts s m, ds @ details m) ms"

definition aggregate_metrics_list :: "metric_set list \<Rightarrow> metric_set" where
  "aggregate_metrics_list metrics_list =
     (if metrics_list = [] then
        \<lparr>accuracy = 0, precision = 0, recall = 0, f1_score = 0,
         total_columns = 0, excluded_columns = 0, correct_predictions = 0,
         true_positives = 0, false_positives = 0, false_negatives = 0, details = []\<rparr>
      else
        let (s, ds) = aggregate_loop (sums_zero, []) metrics_list;
            correct_n = s_correct_predictions s;
            tp = s_true_positives s;
            fp = s_false_positives s;
            fn = s_false_negatives s;
            total = s_total_columns s;
            acc = ratio_or_zero correct_n total;
            prec = ratio_or_zero tp (tp + fp);
            rec = ratio_or_zero tp (tp + fn)
        in \<lparr>accuracy = acc, precision = prec, recall = rec, f1_score = f1_of prec rec,
            total_columns = total, excluded_columns = s_excluded_columns s,
            correct_predictions = correct_n, true_positives = tp,
            false_positives = fp, false_negatives = fn, details = ds\<rparr>)"

text \<open>A prediction entry whose column carries a usable ground-truth label.\<close>

definition labelled :: "ground_truth \<Rightarrow> string \<times> classification \<Rightarrow> bool" where
  "labelled gt p = (\<not> no_label (gt (fst p)))"

section \<open>Dataset loader\<close>

text \<open>
  \<^verbatim>\<open>pd.read_csv(file, header=None, dtype=str)\<close> gives a frame whose cells are strings
  or missing (NaN). The model starts from that frame: a list of rows, a cell being
  \<open>None\<close> when it is missing. \<^verbatim>\<open>str(cell)\<close> of a missing cell is \<^verbatim>\<open>'nan'\<close>.
\<close>

type_synonym cell = "string option"
type_synonym frame = "cell list list"

definition str_of_cell :: "cell \<Rightarrow> string" where
  "str_of_cell c = (case c of None \<Rightarrow> ''nan'' | Some s \<Rightarrow> s)"

text \<open>\<^verbatim>\<open>not name or name.lower() == 'nan'\<close>: the header cell is skipped.\<close>

definition skip_header :: "string \<Rightarrow> bool" where
  "skip_header name = (name = [] \<or> lower name = ''nan'')"

text \<open>
  The ground-truth cell of a kept column: it is stored when
  \<^verbatim>\<open>t and t.lower() != 'nan' and t.strip() != ''\<close>, cut at the first dot when it
  contains \<^verbatim>\<open>.1\<close>, \<^verbatim>\<open>.2\<close> or \<^verbatim>\<open>.3\<close>.
\<close>

definition gt_label :: "cell \<Rightarrow> string option" where
  "gt_label c =
     (let t = str_of_cell c
      in if t \<noteq> [] \<and> lower t \<noteq> ''nan'' \<and> strip t \<noteq> []
         then Some (if list_ex (contains t) [''.1'', ''.2'', ''.3''] then before_first_dot t else t)
         else None)"

definition store_label :: "nat \<Rightarrow> cell list \<Rightarrow> string \<Rightarrow> ground_truth \<Rightarrow> ground_truth" where
  "store_label idx gt_row name gt =
     (if idx < length gt_row
      then (case gt_label (gt_row ! idx) of Some t \<Rightarrow> gt(name \<mapsto> t) | None \<Rightarrow> gt)
      else gt)"

text \<open>
  The loop \<^verbatim>\<open>for idx, h in enumerate(headers_row)\<close>; the accumulator holds
  \<^verbatim>\<open>headers\<close>, \<^verbatim>\<open>gt_base\<close> and \<^verbatim>\<open>gt_custom\<close>.
\<close>

fun header_loop ::
  "nat \<Rightarrow> cell list \<Rightarrow> cell list \<Rightarrow> cell list \<Rightarrow>
   string list \<times> ground_truth \<times> ground_truth \<Rightarrow> string list \<times> ground_truth \<times> ground_truth" where
  "header_loop idx [] baseline_row custom_row acc = acc"
| "header_loop idx (h # hs) baseline_row custom_row (headers, gt_base, gt_custom) =
     (let name = str_of_cell h
      in if skip_header name
         then header_loop (Suc idx) hs baseline_row custom_row (headers, gt_base, gt_custom)
         else header_loop (Suc idx) hs baseline_row custom_row
                (headers @ [name],
                 store_label idx baseline_row name gt_base,
                 store_label idx custom_row name gt_custom))"

text \<open>
  A data cell: \<^verbatim>\<open>None\<close> when its string is blank or \<^verbatim>\<open>nan\<close>. The row loop
  \<^verbatim>\<open>for i, col in enumerate(headers)\<close> reads position \<open>i\<close> of the row, \<open>i\<close> being the
  position of the header among the kept headers.
\<close>

definition data_value :: "cell \<Rightarrow> string option" where
  "data_value val =
     (let s = str_of_cell val
      in if strip s = [] \<or> lower s = ''nan'' then None else Some s)"

type_synonym data_row = "string \<rightharpoonup> string option"

fun row_loop :: "nat \<Rightarrow> string list \<Rightarrow> cell list \<Rightarrow> data_row \<Rightarrow> data_row" where
  "row_loop i [] row d = d"
| "row_loop i (col # cols) row d =
     row_loop (Suc i) cols row
       (d(col \<mapsto> (if i < length row then data_value (row ! i) else None)))"

record loaded =
  headers :: "string list"
  data_rows :: "data_row list"
  gt_base :: ground_truth
  gt_custom :: ground_truth

text \<open>\<^verbatim>\<open>_load_universal\<close>: row 0 baseline labels, row 1 custom labels, row 2 headers.\<close>

definition load_universal :: "frame \<Rightarrow> py_error + loaded" where
  "load_universal df =
     (if length df < 4 then Inl ValueError
      else let headers_row = df ! 2;
               baseline_row = df ! 0;
               custom_row = df ! 1;
               (hs, gb, gc) = header_loop 0 headers_row baseline_row custom_row
                                ([], Map.empty, Map.empty)
           in Inr \<lparr>headers = hs,
                   data_rows = map (\<lambda>row. row_loop 0 hs row Map.empty) (drop 3 df),
                   gt_base = gb, gt_custom = gc\<rparr>)"

text \<open>
  A small dataset file: three columns, the middle one without header; the labels
  \<^verbatim>\<open>NUM\<close>, \<^verbatim>\<open>X\<close> on the baseline row and \<^verbatim>\<open>ZIP.2\<close>, \<^verbatim>\<open>EMAIL\<close> on the custom row;
  one data row.
\<close>

definition example_frame :: frame where
  "example_frame =
     [[Some ''NUM'', None, Some ''X''],
      [Some ''ZIP.2'', Some ''EMAIL'', None],
      [Some ''A'', None, Some ''C''],
      [Some ''1'', Some ''2'', Some '' '']]"

section \<open>Profiling client\<close>

text \<open>
  The JSON object that the classification service returns, as far as the evaluator reads
  it: the key \<^verbatim>\<open>column_classifications\<close> (present with a dict) and the key
  \<^verbatim>\<open>columns\<close> (present with a list of column objects).
\<close>

record column_entry =
  ce_column_name :: "string option"
  ce_columnName :: "string option"
  ce_name :: "string option"
  ce_semantic_type :: "string option"
  ce_semanticType :: "string option"

record raw_predictions =
  column_classifications :: "predictions option"
  columns :: "column_entry list option"

text \<open>
  What \<^verbatim>\<open>requests.post(..., timeout=300)\<close> can do: answer with a status code and a body
  (\<open>None\<close> when the body is not JSON), time out, or fail with another exception.
\<close>

datatype http_outcome = Response nat "raw_predictions option" | Timeout | RequestFailed

record profiling_request =
  table_name :: string
  req_columns :: "string list"
  req_data :: "data_row list"
  max_samples :: nat
  include_statistics :: bool
  custom_only :: bool

text \<open>
  The settings read by \<^verbatim>\<open>profile_rows\<close>: the CLI flag \<^verbatim>\<open>full_data\<close> and the values of
  \<^verbatim>\<open>EVAL_MAX_COLUMNS\<close>, \<^verbatim>\<open>EVAL_TRUNCATE_DATA\<close> and \<^verbatim>\<open>EVAL_MAX_ROWS\<close> (300, true and
  1000 when unset).
\<close>

record profiling_config =
  dataset :: string
  full_data :: bool
  max_cols_cap :: int
  truncate_data :: bool
  row_cap :: int

text \<open>\<^verbatim>\<open>xs[:n]\<close> for a Python integer \<open>n\<close>.\<close>

definition py_take :: "int \<Rightarrow> 'a list \<Rightarrow> 'a list" where
  "py_take n xs = (if 0 \<le> n then take (nat n) xs else take (length xs - nat (- n)) xs)"

definition build_request ::
  "profiling_config \<Rightarrow> string list \<Rightarrow> data_row list \<Rightarrow> bool \<Rightarrow> profiling_request" where
  "build_request cfg cols rows co =
     (let capped = (\<not> full_data cfg \<and> max_cols_cap cfg < int (length cols));
          actual_headers = (if capped then py_take (max_cols_cap cfg) cols else cols);
          rows1 = (if capped then map (\<lambda>row. row |` set actual_headers) rows else rows);
          should_truncate = (if full_data cfg then False else truncate_data cfg);
          rows2 = (if should_truncate then py_take (row_cap cfg) rows1 else rows1)
      in \<lparr>table_name = dataset cfg @ ''_table'', req_columns = actual_headers,
          req_data = rows2, max_samples = length rows2, include_statistics = False,
          custom_only = co\<rparr>)"

text \<open>The two dictionaries that \<^verbatim>\<open>profile_rows\<close> returns when the call did not succeed.\<close>

definition empty_classifications :: raw_predictions where
  "empty_classifications = \<lparr>column_classifications = Some [], columns = Some []\<rparr>"

definition empty_dict :: raw_predictions where
  "empty_dict = \<lparr>column_classifications = None, columns = None\<rparr>"

text \<open>
  \<^verbatim>\<open>profile_rows\<close>, the client of the multi-file runs. Every exception is caught inside:
  a status other than 200 gives the empty classification structure, a timeout or any
  other exception (a body that is not JSON included) gives \<^verbatim>\<open>{}\<close>.
\<close>

definition profile_rows ::
  "(profiling_request \<Rightarrow> http_outcome) \<Rightarrow> profiling_config \<Rightarrow> string list \<Rightarrow>
   data_row list \<Rightarrow> bool \<Rightarrow> raw_predictions" where
  "profile_rows post cfg cols rows co =
     (case post (build_request cfg cols rows co) of
        Response status body \<Rightarrow>
          if status = 200 then (case body of Some j \<Rightarrow> j | None \<Rightarrow> empty_dict)
          else empty_classifications
      | Timeout \<Rightarrow> empty_dict
      | RequestFailed \<Rightarrow> empty_dict)"

text \<open>
  \<^verbatim>\<open>profile_data\<close>, the client of the single-file runs, from its POST on (the request is
  built from the data file before). A status other than 200 raises \<^verbatim>\<open>RuntimeError\<close>
  (raised inside the \<^verbatim>\<open>try\<close>, caught by \<^verbatim>\<open>except Exception\<close> and raised again as
  \<^verbatim>\<open>RuntimeError\<close>), a timeout raises \<^verbatim>\<open>TimeoutError\<close>.
\<close>

definition profile_data ::
  "(profiling_request \<Rightarrow> http_outcome) \<Rightarrow> profiling_request \<Rightarrow> py_error + raw_predictions" where
  "profile_data post request =
     (case post request of
        Response status body \<Rightarrow>
          if status = 200 then (case body of Some j \<Rightarrow> Inr j | None \<Rightarrow> Inl RuntimeError)
          else Inl RuntimeError
      | Timeout \<Rightarrow> Inl TimeoutError
      | RequestFailed \<Rightarrow> Inl RuntimeError)"

text \<open>\<^verbatim>\<open>d[k] = v\<close> on a dict kept in insertion order.\<close>

fun dict_set :: "'k \<Rightarrow> 'v \<Rightarrow> ('k \<times> 'v) list \<Rightarrow> ('k \<times> 'v) list" where
  "dict_set k v [] = [(k, v)]"
| "dict_set k v ((k', v') # kvs) = (if k' = k then (k, v) # kvs else (k', v') # dict_set k v kvs)"

text \<open>
  \<^verbatim>\<open>_parse_predictions\<close>: the map form is preferred; the list form is normalised entry by
  entry; a payload with neither raises \<^verbatim>\<open>ValueError\<close>.
\<close>

definition entry_name :: "column_entry \<Rightarrow> string" where
  "entry_name col =
     (case py_or (py_or (py_or (ce_column_name col) (ce_columnName col)) (ce_name col)) (Some [])
      of Some n \<Rightarrow> n | None \<Rightarrow> [])"

definition entry_classification :: "column_entry \<Rightarrow> classification" where
  "entry_classification col =
     (let semt = py_or (ce_semantic_type col) (ce_semanticType col)
      in \<lparr>semantic_type = (case semt of Some s \<Rightarrow> Some s | None \<Rightarrow> ce_semantic_type col),
          semanticType = ce_semanticType col\<rparr>)"

fun normalize_columns :: "column_entry list \<Rightarrow> predictions \<Rightarrow> predictions" where
  "normalize_columns [] normalized = normalized"
| "normalize_columns (col # cols) normalized =
     normalize_columns cols
       (if entry_name col \<noteq> [] then dict_set (entry_name col) (entry_classification col) normalized
        else normalized)"

definition parse_predictions :: "raw_predictions \<Rightarrow> py_error + predictions" where
  "parse_predictions preds =
     (case column_classifications preds of
        Some m \<Rightarrow> Inr m
      | None \<Rightarrow>
          (case columns preds of
             Some cols \<Rightarrow> Inr (normalize_columns cols [])
           | None \<Rightarrow> Inl ValueError))"

text \<open>
  Example services and settings: a service that answers every request with status 500,
  one that answers 200 with an empty classification, one that never answers in time;
  the default settings.
\<close>

definition failing_service :: "profiling_request \<Rightarrow> http_outcome" where
  "failing_service request = Response 500 None"

definition empty_service :: "profiling_request \<Rightarrow> http_outcome" where
  "empty_service request = Response 200 (Some empty_classifications)"

definition slow_service :: "profiling_request \<Rightarrow> http_outcome" where
  "slow_service request = Timeout"

definition default_config :: profiling_config where
  "default_config = \<lparr>dataset = ''extension'', full_data = False, max_cols_cap = 300,
                      truncate_data = True, row_cap = 1000\<rparr>"

section \<open>Per-column outcome of the comparison\<close>

datatype outcome = Both | CustomOnly | BaselineOnly | Neither

text \<open>
  The chain \<^verbatim>\<open>if b and c ... elif c and not b ... elif b and not c ... else\<close> that both
  outcome tables use to name the outcome of a column.
\<close>

definition outcome_of :: "bool \<Rightarrow> bool \<Rightarrow> outcome" where
  "outcome_of b_ok c_ok =
     (if b_ok \<and> c_ok then Both
      else if c_ok \<and> \<not> b_ok then CustomOnly
      else if b_ok \<and> \<not> c_ok then BaselineOnly
      else Neither)"

subsection \<open>The table of \<^verbatim>\<open>run_comparative_evaluation\<close>\<close>

text \<open>
  \<^verbatim>\<open>_compute_correct_map\<close>: column to correctness, for the labelled columns of one file.
\<close>

fun correct_map_loop :: "predictions \<Rightarrow> ground_truth \<Rightarrow> (string \<rightharpoonup> bool) \<Rightarrow> (string \<rightharpoonup> bool)" where
  "correct_map_loop [] gt outcome = outcome"
| "correct_map_loop ((col_name, entry) # rest) gt outcome =
     (case gt col_name of
        None \<Rightarrow> correct_map_loop rest gt outcome
      | Some true_type \<Rightarrow>
          if no_label (Some true_type) then correct_map_loop rest gt outcome
          else correct_map_loop rest gt
                 (outcome(col_name \<mapsto> (predicted_type_of entry = true_type))))"

definition compute_correct_map :: "predictions \<Rightarrow> ground_truth \<Rightarrow> (string \<rightharpoonup> bool)" where
  "compute_correct_map preds gt = correct_map_loop preds gt Map.empty"

text \<open>\<^verbatim>\<open>m.get(col, False)\<close>\<close>

definition get_or_false :: "(string \<rightharpoonup> bool) \<Rightarrow> string \<Rightarrow> bool" where
  "get_or_false m col = (case m col of Some b \<Rightarrow> b | None \<Rightarrow> False)"

text \<open>
  \<^verbatim>\<open>_print_per_column_outcome_summary\<close>: the per-file dictionaries are indexed by the
  file number, so each is a list. One row per column of any prediction map, in sorted
  order. The two columns of the table that show a predicted type are left out.
\<close>

definition summary_outcome ::
  "(string \<rightharpoonup> bool) list \<Rightarrow> (string \<rightharpoonup> bool) list \<Rightarrow> string \<Rightarrow> outcome" where
  "summary_outcome baseline_correct_maps custom_correct_maps col =
     (let base_any = list_ex (\<lambda>m. get_or_false m col) baseline_correct_maps;
          cust_any = list_ex (\<lambda>m. get_or_false m col) custom_correct_maps
      in outcome_of base_any cust_any)"

definition per_column_outcome_summary ::
  "predictions list \<Rightarrow> predictions list \<Rightarrow> (string \<rightharpoonup> bool) list \<Rightarrow>
   (string \<rightharpoonup> bool) list \<Rightarrow> (string \<times> outcome) list" where
  "per_column_outcome_summary baseline_predictions custom_predictions
       baseline_correct_maps custom_correct_maps =
     (let all_cols = remdups (concat (map (map fst) baseline_predictions)
                              @ concat (map (map fst) custom_predictions))
      in map (\<lambda>col. (col, summary_outcome baseline_correct_maps custom_correct_maps col))
           (sort all_cols))"

subsection \<open>The table of \<^verbatim>\<open>_evaluate_and_compare_description\<close>\<close>

record col_outcome =
  oc_correct :: bool
  oc_semantic_type :: string

type_synonym correct_map = "(string \<times> col_outcome) list"

text \<open>
  \<^verbatim>\<open>_per_column_correct_map\<close>, from the parsed predictions of the file on: one entry per
  labelled column, in the order of the prediction map.
\<close>

fun per_column_correct_map :: "predictions \<Rightarrow> ground_truth \<Rightarrow> correct_map \<Rightarrow> correct_map" where
  "per_column_correct_map [] gt outcome = outcome"
| "per_column_correct_map ((col_name, cl) # rest) gt outcome =
     (case gt col_name of
        None \<Rightarrow> per_column_correct_map rest gt outcome
      | Some true_type \<Rightarrow>
          if no_label (Some true_type) then per_column_correct_map rest gt outcome
          else per_column_correct_map rest gt
                 (dict_set col_name
                    \<lparr>oc_correct = (predicted_type_of cl = true_type),
                     oc_semantic_type = predicted_type_of cl\<rparr> outcome))"

record stats =
  total :: nat
  baseline_correct :: nat
  custom_correct :: nat

text \<open>\<^verbatim>\<open>m.get(col, {}).get('correct', False)\<close>\<close>

definition is_correct :: "correct_map \<Rightarrow> string \<Rightarrow> bool" where
  "is_correct m col = (case map_of m col of Some oc \<Rightarrow> oc_correct oc | None \<Rightarrow> False)"

text \<open>
  The body of the loop \<^verbatim>\<open>for col in cols\<close> of \<^verbatim>\<open>_aggregate_per_column_outcome\<close>:
  \<^verbatim>\<open>setdefault\<close>, then the three counters.
\<close>

definition bump :: "correct_map \<Rightarrow> correct_map \<Rightarrow> (string \<times> stats) list \<Rightarrow> string \<Rightarrow> (string \<times> stats) list" where
  "bump base_map cust_map totals col =
     (let st = (case map_of totals col of
                  Some s \<Rightarrow> s
                | None \<Rightarrow> \<lparr>total = 0, baseline_correct = 0, custom_correct = 0\<rparr>)
      in dict_set col
           \<lparr>total = total st + 1,
            baseline_correct = baseline_correct st + (if is_correct base_map col then 1 else 0),
            custom_correct = custom_correct st + (if is_correct cust_map col then 1 else 0)\<rparr>
           totals)"

text \<open>
  One file: \<^verbatim>\<open>cols = set(base_map.keys()).union(cust_map.keys())\<close>. The set is walked in
  some order; each column changes its own entry only.
\<close>

definition aggregate_file :: "(string \<times> stats) list \<Rightarrow> correct_map \<times> correct_map \<Rightarrow> (string \<times> stats) list" where
  "aggregate_file totals f =
     foldl (bump (fst f) (snd f)) totals (remdups (map fst (fst f) @ map fst (snd f)))"

text \<open>
  \<^verbatim>\<open>_aggregate_per_column_outcome\<close>, given for every input file the baseline and the
  custom correctness map (the dictionary of the types shown in the table is left out).
\<close>

definition aggregate_per_column_outcome :: "(correct_map \<times> correct_map) list \<Rightarrow> (string \<times> stats) list" where
  "aggregate_per_column_outcome files = foldl aggregate_file [] files"

text \<open>\<^verbatim>\<open>outcome_label\<close> of \<^verbatim>\<open>_print_aggregate_per_column_outcome\<close>\<close>

definition outcome_label :: "stats \<Rightarrow> outcome" where
  "outcome_label st =
     (let b_ok = (baseline_correct st = total st);
          c_ok = (custom_correct st = total st)
      in outcome_of b_ok c_ok)"

text \<open>The rows of the table, sorted by \<^verbatim>\<open>(-total, column)\<close>.\<close>

definition aggregate_rows :: "(string \<times> stats) list \<Rightarrow> (string \<times> nat \<times> outcome) list" where
  "aggregate_rows aggregated =
     map (\<lambda>(col, st). (col, total st, outcome_label st))
       (sort_key (\<lambda>(col, st). (- int (total st), col)) aggregated)"

text \<open>
  A file has an occurrence of a column when either of its two correctness maps has the
  column, that is, when the service returned a prediction for the column and the column
  is labelled, in the baseline run or in the custom run of the file.
\<close>

definition occurs_in :: "string \<Rightarrow> correct_map \<times> correct_map \<Rightarrow> bool" where
  "occurs_in col f = (col \<in> set (map fst (fst f)) \<or> col \<in> set (map fst (snd f)))"

text \<open>
  What one pass of the loop body does to the entry of a column, and the statistics that
  the aggregation is expected to hold for a column: the number of files where it occurs
  and, among these, the number of files where each side is correct.
\<close>

definition bumped :: "correct_map \<Rightarrow> correct_map \<Rightarrow> string \<Rightarrow> stats option \<Rightarrow> stats" where
  "bumped b c col so =
     (let st = (case so of Some s \<Rightarrow> s
                | None \<Rightarrow> \<lparr>total = 0, baseline_correct = 0, custom_correct = 0\<rparr>)
      in \<lparr>total = total st + 1,
          baseline_correct = baseline_correct st + (if is_correct b col then 1 else 0),
          custom_correct = custom_correct st + (if is_correct c col then 1 else 0)\<rparr>)"

definition expected_stats :: "(correct_map \<times> correct_map) list \<Rightarrow> string \<Rightarrow> stats option" where
  "expected_stats files col =
     (let occ = filter (occurs_in col) files
      in if occ = [] then None
         else Some \<lparr>total = length occ,
                    baseline_correct = count_where (\<lambda>f. is_correct (fst f) col) occ,
                    custom_correct = count_where (\<lambda>f. is_correct (snd f) col) occ\<rparr>)"

text \<open>The entry that \<^verbatim>\<open>_per_column_correct_map\<close> stores for a column labelled \<open>t\<close>.\<close>

definition col_outcome_of :: "classification \<Rightarrow> string \<Rightarrow> col_outcome" where
  "col_outcome_of cl t =
     \<lparr>oc_correct = (predicted_type_of cl = t), oc_semantic_type = predicted_type_of cl\<rparr>"

text \<open>
  Two files with the column \<open>A\<close>, labelled \<open>X\<close> on both tracks; the service predicts
  \<open>X\<close> in the first file and \<open>Y\<close> in the second, in baseline and in custom mode.
\<close>

definition example_gt :: ground_truth where
  "example_gt = map_of [(''A'', ''X'')]"

definition example_preds_right :: predictions where
  "example_preds_right = [(''A'', \<lparr>semantic_type = Some ''X'', semanticType = None\<rparr>)]"

definition example_preds_wrong :: predictions where
  "example_preds_wrong = [(''A'', \<lparr>semantic_type = Some ''Y'', semanticType = None\<rparr>)]"

definition example_correct_maps :: "(string \<rightharpoonup> bool) list" where
  "example_correct_maps =
     [compute_correct_map example_preds_right example_gt,
      compute_correct_map example_preds_wrong example_gt]"

definition example_files :: "(correct_map \<times> correct_map) list" where
  "example_files =
     [(per_column_correct_map example_preds_right example_gt [],
       per_column_correct_map example_preds_right example_gt []),
      (per_column_correct_map example_preds_wrong example_gt [],
       per_column_correct_map example_preds_wrong example_gt [])]"

section \<open>Type lifecycle manager\<close>

subsection \<open>Generated types and registry payloads\<close>

text \<open>
  The JSON objects of the lifecycle manager, as records. A present field has the type
  the evaluator expects. An optional field is \<open>None\<close> when the key is absent or
  \<^verbatim>\<open>null\<close>, which the evaluator does not tell apart for that key; the keys for which
  it does are fields of type \<open>json_field\<close>.
\<close>

record header_pattern =
  hp_regExp :: "string option"
  hp_confidence :: "int json_field"
  hp_mandatory :: "bool option"

record generated_type =
  g_semanticType :: "string option"
  g_description :: "string option"
  g_pluginType :: "string option"
  g_baseType :: "string option"
  g_confidenceThreshold :: "pyval option"
  g_priority :: "int option"
  g_regexPattern :: "string json_field"
  g_listValues :: "string option list option"
  g_backout :: "string option"
  g_headerPatterns :: "header_pattern list option"

record header_regexp =
  regExp :: "string option"
  confidence :: "int json_field"
  mandatory :: "bool option"

record match_entry =
  regExpReturned :: "string option"
  isRegExpComplete :: "bool json_field"

record locale_entry =
  localeTag :: "string json_field"
  headerRegExps :: "header_regexp list option"
  matchEntries :: "match_entry list option"

record type_content =
  c_type :: "string option"
  c_values :: "code_points list option"

record custom_type =
  ct_semanticType :: "string option"
  ct_description :: "string option"
  ct_pluginType :: "string option"
  ct_baseType :: "string option"
  ct_threshold :: "int option"
  ct_priority :: "int option"
  ct_validLocales :: "locale_entry list option"
  ct_content :: "type_content option"
  ct_backout :: "string option"
  ct_ephemeral :: "bool option"

subsection \<open>Threshold resolution\<close>

text \<open>
  The \<^verbatim>\<open>try\<close> block of \<^verbatim>\<open>_build_custom_type_payload\<close>: the value before clamping, or
  the exception raised. A boolean is an \<^verbatim>\<open>int\<close> for \<^verbatim>\<open>isinstance\<close>, and
  \<^verbatim>\<open>float(True)\<close> is \<open>1.0\<close>.
\<close>

definition raw_threshold_int :: "pyval option \<Rightarrow> py_error + int" where
  "raw_threshold_int raw_threshold =
     (case raw_threshold of
        None \<Rightarrow> Inr 95
      | Some (PyBool b) \<Rightarrow> py_round (times_100 (Finite (if b then 1 else 0)))
      | Some (PyInt n) \<Rightarrow>
          (case float_of_int n of
             Inl e \<Rightarrow> Inl e
           | Inr f \<Rightarrow> if le_one f then py_round (times_100 f) else Inr n)
      | Some (PyFloat f) \<Rightarrow> if le_one f then py_round (times_100 f) else int_of_float f
      | Some (PyNonNumeric r) \<Rightarrow> (case r of Some n \<Rightarrow> Inr n | None \<Rightarrow> Inl ValueError))"

text \<open>The two clamping statements after the \<^verbatim>\<open>try\<close> block.\<close>

definition clamp_threshold :: "int \<Rightarrow> int" where
  "clamp_threshold threshold_int =
     (let t = (if threshold_int < 80 then 95 else threshold_int)
      in if 100 < t then 100 else t)"

text \<open>
  \<^verbatim>\<open>except (ValueError, TypeError)\<close> sets 95; any other exception leaves the function.
\<close>

definition resolve_threshold :: "pyval option \<Rightarrow> py_error + int" where
  "resolve_threshold raw_threshold =
     (case raw_threshold_int raw_threshold of
        Inr t \<Rightarrow> Inr (clamp_threshold t)
      | Inl e \<Rightarrow> if e = ValueError \<or> e = TypeError then Inr (clamp_threshold 95) else Inl e)"

subsection \<open>Building the payload\<close>

text \<open>\<^verbatim>\<open>s.isdigit()\<close>\<close>

definition isdigit :: "string \<Rightarrow> bool" where
  "isdigit s = (s \<noteq> [] \<and> list_all is_digit s)"

text \<open>\<^verbatim>\<open>x or ""\<close> on an optional string.\<close>

definition or_empty :: "string option \<Rightarrow> string" where
  "or_empty v = (case v of Some s \<Rightarrow> s | None \<Rightarrow> [])"

definition field_or_empty :: "string json_field \<Rightarrow> string" where
  "field_or_empty v = (case v of Present s \<Rightarrow> s | Absent \<Rightarrow> [] | Null \<Rightarrow> [])"

text \<open>
  \<^verbatim>\<open>_determine_base_type\<close>. In the \<^verbatim>\<open>regex\<close> branch
  \<^verbatim>\<open>generated_type.get("regexPattern", "")\<close> is \<^verbatim>\<open>None\<close> for a \<^verbatim>\<open>null\<close> pattern, and
  \<^verbatim>\<open>None.replace\<close> raises \<^verbatim>\<open>AttributeError\<close>.
\<close>

definition determine_base_type :: "generated_type \<Rightarrow> py_error + string" where
  "determine_base_type g =
     (if truthy (g_baseType g) then
        (let base_type = or_empty (g_baseType g)
         in Inr (if lower base_type = ''string'' then ''STRING'' else base_type))
      else if g_pluginType g = Some ''regex'' then
        (case g_regexPattern g of
           Null \<Rightarrow> Inl AttributeError
         | _ \<Rightarrow>
             (let pattern = field_or_empty (g_regexPattern g);
                  stripped = filter (\<lambda>ch. ch \<noteq> CHR ''^'' \<and> ch \<noteq> CHR ''$'') pattern;
                  numeric_like = list_all (\<lambda>ch. ch \<in> set (CHR 0x5C # ''d{}0123456789'')) stripped
              in Inr (if numeric_like then ''LONG'' else ''STRING'')))
      else if g_pluginType g = Some ''list'' then
        (let vals = concat (map (\<lambda>v. case v of Some x \<Rightarrow> [x] | None \<Rightarrow> [])
                             (case g_listValues g of Some vs \<Rightarrow> vs | None \<Rightarrow> []))
         in Inr (if vals \<noteq> [] \<and> list_all isdigit vals then ''LONG'' else ''STRING''))
      else Inr ''STRING'')"

text \<open>\<^verbatim>\<open>_determine_priority\<close>\<close>

definition determine_priority :: "generated_type \<Rightarrow> int" where
  "determine_priority g = (case g_priority g of Some p \<Rightarrow> p | None \<Rightarrow> 1000)"

text \<open>
  The member loop of \<^verbatim>\<open>_add_list_content\<close>: values are stripped and upper-cased, blank
  ones and repetitions dropped (\<^verbatim>\<open>seen\<close> is the set of the members so far).
\<close>

fun list_members :: "string option list \<Rightarrow> code_points list \<Rightarrow> code_points list" where
  "list_members [] members = members"
| "list_members (v # vs) members =
     (case v of
        None \<Rightarrow> list_members vs members
      | Some x \<Rightarrow>
          (let s = strip x
           in if s = [] then list_members vs members
              else let u = upper s
                   in if u \<in> set members then list_members vs members
                      else list_members vs (members @ [u])))"

text \<open>
  \<^verbatim>\<open>_add_list_content\<close>: \<open>None\<close> when it returns \<^verbatim>\<open>False\<close>, the payload with content
  and backout when it returns \<^verbatim>\<open>True\<close>.
\<close>

definition add_list_content :: "custom_type \<Rightarrow> generated_type \<Rightarrow> custom_type option" where
  "add_list_content custom_type g =
     (case g_listValues g of
        None \<Rightarrow> None
      | Some list_values \<Rightarrow>
          if list_values = [] then None
          else
            (let members = list_members list_values [];
                 with_content = custom_type\<lparr>ct_content :=
                   Some \<lparr>c_type = Some ''inline'', c_values = Some members\<rparr>\<rparr>;
                 backout = strip (or_empty (g_backout g))
             in if backout = [] then None
                else Some (with_content\<lparr>ct_backout := Some backout\<rparr>)))"

text \<open>\<^verbatim>\<open>custom_type["validLocales"][0][key] = value\<close>\<close>

definition update_first_locale :: "(locale_entry \<Rightarrow> locale_entry) \<Rightarrow> custom_type \<Rightarrow> custom_type" where
  "update_first_locale f custom_type =
     (case ct_validLocales custom_type of
        Some (loc # locs) \<Rightarrow> custom_type\<lparr>ct_validLocales := Some (f loc # locs)\<rparr>
      | _ \<Rightarrow> custom_type)"

text \<open>\<^verbatim>\<open>_add_regex_content\<close>\<close>

definition add_regex_content :: "custom_type \<Rightarrow> generated_type \<Rightarrow> custom_type option" where
  "add_regex_content custom_type g =
     (let regex_pattern = strip (field_or_empty (g_regexPattern g))
      in if regex_pattern = [] then None
         else Some (update_first_locale
                      (\<lambda>loc. loc\<lparr>matchEntries :=
                         Some [\<lparr>regExpReturned = Some regex_pattern,
                                isRegExpComplete = Present True\<rparr>]\<rparr>)
                      custom_type))"

text \<open>
  \<^verbatim>\<open>_add_header_patterns\<close>. A pattern whose \<^verbatim>\<open>confidence\<close> is \<^verbatim>\<open>null\<close> makes
  \<^verbatim>\<open>int(None)\<close> raise inside the \<^verbatim>\<open>try\<close>, and the loop goes on without it.
\<close>

definition header_pattern_entry :: "header_pattern \<Rightarrow> header_regexp list" where
  "header_pattern_entry hp =
     (let reg = strip (or_empty (hp_regExp hp))
      in if reg = [] then []
         else case hp_confidence hp of
                Null \<Rightarrow> []
              | Absent \<Rightarrow>
                  [\<lparr>regExp = Some reg, confidence = Present 95,
                    mandatory = Some (case hp_mandatory hp of Some m \<Rightarrow> m | None \<Rightarrow> False)\<rparr>]
              | Present c \<Rightarrow>
                  [\<lparr>regExp = Some reg, confidence = Present c,
                    mandatory = Some (case hp_mandatory hp of Some m \<Rightarrow> m | None \<Rightarrow> False)\<rparr>])"

definition header_patterns_of :: "generated_type \<Rightarrow> header_regexp list" where
  "header_patterns_of g =
     concat (map header_pattern_entry
               (case g_headerPatterns g of Some hps \<Rightarrow> hps | None \<Rightarrow> []))"

definition add_header_patterns :: "custom_type \<Rightarrow> generated_type \<Rightarrow> custom_type" where
  "add_header_patterns custom_type g =
     (let header_patterns = header_patterns_of g
      in if header_patterns \<noteq> []
         then update_first_locale (\<lambda>loc. loc\<lparr>headerRegExps := Some header_patterns\<rparr>) custom_type
         else custom_type)"

text \<open>
  \<^verbatim>\<open>_build_custom_type_payload\<close>: \<open>Inr None\<close> when it returns \<^verbatim>\<open>None\<close>, \<open>Inl\<close> when an
  exception leaves it: a missing key (for a \<^verbatim>\<open>null\<close> name or description it is the
  \<^verbatim>\<open>AttributeError\<close> of \<^verbatim>\<open>None.strip\<close>; the model says \<^verbatim>\<open>KeyError\<close> for both), an
  overflow in the threshold resolution, or the error of the base type. The entries of
  the dictionary are evaluated in the order in which they are written.
\<close>

definition build_custom_type_payload :: "generated_type \<Rightarrow> py_error + custom_type option" where
  "build_custom_type_payload g =
     (case g_pluginType g of
        None \<Rightarrow> Inl KeyError
      | Some plugin_type \<Rightarrow>
          (case resolve_threshold (g_confidenceThreshold g) of
             Inl e \<Rightarrow> Inl e
           | Inr threshold_int \<Rightarrow>
               (case g_semanticType g of
                  None \<Rightarrow> Inl KeyError
                | Some name \<Rightarrow>
                    (case g_description g of
                       None \<Rightarrow> Inl KeyError
                     | Some descr \<Rightarrow>
                         (case determine_base_type g of
                            Inl e \<Rightarrow> Inl e
                          | Inr base_type \<Rightarrow>
                              (let custom_type =
                                     \<lparr>ct_semanticType = Some (strip name),
                                      ct_description = Some (strip descr),
                                      ct_pluginType = Some plugin_type,
                                      ct_baseType = Some base_type,
                                      ct_threshold = Some threshold_int,
                                      ct_priority = Some (determine_priority g),
                                      ct_validLocales =
                                        Some [\<lparr>localeTag = Present ''*'', headerRegExps = None,
                                               matchEntries = None\<rparr>],
                                      ct_content = None,
                                      ct_backout = None,
                                      ct_ephemeral = None\<rparr>;
                                   with_content =
                                     (if plugin_type = ''list'' then add_list_content custom_type g
                                      else if plugin_type = ''regex''
                                      then add_regex_content custom_type g
                                      else Some custom_type)
                               in case with_content of
                                    None \<Rightarrow> Inr None
                                  | Some ct \<Rightarrow> Inr (Some (add_header_patterns ct g))))))))"

subsection \<open>Comparing with the cached registry entry\<close>

text \<open>
  \<^verbatim>\<open>_is_same_type\<close>: the five picked fields, the normalised locales and the normalised
  content of both dictionaries are dumped as JSON with sorted keys and compared; on
  values of these types that is equality of the normalised views. The name, the
  description and the ephemeral flag are not compared. A header entry whose
  \<^verbatim>\<open>confidence\<close> is \<^verbatim>\<open>null\<close> makes \<^verbatim>\<open>int(None)\<close> raise, and the function then answers
  \<^verbatim>\<open>False\<close>; a \<^verbatim>\<open>null\<close> \<^verbatim>\<open>localeTag\<close> stays \<^verbatim>\<open>None\<close> and a \<^verbatim>\<open>null\<close>
  \<^verbatim>\<open>isRegExpComplete\<close> becomes \<^verbatim>\<open>False\<close>.
\<close>

definition pick :: "custom_type \<Rightarrow> string option \<times> string option \<times> int option \<times> int option \<times> string option" where
  "pick d = (ct_pluginType d, ct_baseType d, ct_threshold d, ct_priority d, ct_backout d)"

type_synonym norm_header_entry = "string option \<times> int \<times> bool"
type_synonym norm_match_entry = "string option \<times> bool"
type_synonym norm_locale_entry = "string option \<times> norm_header_entry list \<times> norm_match_entry list"

definition norm_header :: "header_regexp \<Rightarrow> norm_header_entry option" where
  "norm_header h =
     (let m = (case mandatory h of Some b \<Rightarrow> b | None \<Rightarrow> False)
      in case confidence h of
           Null \<Rightarrow> None
         | Absent \<Rightarrow> Some (regExp h, 95, m)
         | Present c \<Rightarrow> Some (regExp h, c, m))"

definition norm_match :: "match_entry \<Rightarrow> norm_match_entry" where
  "norm_match m =
     (regExpReturned m,
      (case isRegExpComplete m of Absent \<Rightarrow> True | Null \<Rightarrow> False | Present b \<Rightarrow> b))"

definition norm_locale :: "locale_entry \<Rightarrow> norm_locale_entry option" where
  "norm_locale loc =
     (case those (map norm_header (case headerRegExps loc of Some hs \<Rightarrow> hs | None \<Rightarrow> [])) of
        None \<Rightarrow> None
      | Some hs \<Rightarrow>
          Some ((case localeTag loc of Absent \<Rightarrow> Some ''*'' | Null \<Rightarrow> None | Present t \<Rightarrow> Some t),
                hs,
                map norm_match (case matchEntries loc of Some ms \<Rightarrow> ms | None \<Rightarrow> [])))"

text \<open>\<open>None\<close> when the normalisation raises.\<close>

definition norm_locales :: "custom_type \<Rightarrow> norm_locale_entry list option" where
  "norm_locales x =
     those (map norm_locale (case ct_validLocales x of Some locs \<Rightarrow> locs | None \<Rightarrow> []))"

definition norm_content :: "custom_type \<Rightarrow> string option \<times> code_points list option" where
  "norm_content x =
     (case ct_content x of Some c \<Rightarrow> (c_type c, c_values c) | None \<Rightarrow> (None, None))"

definition is_same_type :: "custom_type \<Rightarrow> custom_type \<Rightarrow> bool" where
  "is_same_type existing new =
     (case norm_locales existing of
        None \<Rightarrow> False
      | Some a_loc \<Rightarrow>
          (case norm_locales new of
             None \<Rightarrow> False
           | Some b_loc \<Rightarrow>
               pick existing = pick new \<and> a_loc = b_loc
               \<and> norm_content existing = norm_content new))"

subsection \<open>The registry and the evaluator\<close>

text \<open>
  The requests that the lifecycle manager sends to the registry, and what comes back: a
  status code with the list of types of the body (read for the listing only), or an
  exception of the HTTP library.
\<close>

datatype request = GetCustomOnly | Post custom_type | Put string custom_type

datatype reply = Reply nat "custom_type list" | NetworkError

text \<open>
  The registry is a server with a state of its own: \<open>serve\<close> answers a request in a
  state and gives the next state. The network records every exchange, so that the
  writes of a run can be counted.
\<close>

record 'r net =
  registry :: 'r
  exchanges :: "(request \<times> reply) list"

definition http :: "('r \<Rightarrow> request \<Rightarrow> reply \<times> 'r) \<Rightarrow> request \<Rightarrow> 'r net \<Rightarrow> reply \<times> 'r net" where
  "http serve req n =
     (let (rep, r') = serve (registry n) req
      in (rep, \<lparr>registry = r', exchanges = exchanges n @ [(req, rep)]\<rparr>))"

text \<open>The fields of \<^verbatim>\<open>ProfileEvaluator\<close> that the lifecycle manager reads and writes.\<close>

record evaluator =
  created_types :: "string set"
  existing_types_cache :: "(string \<times> custom_type) list"
  only_types_regex :: "(string \<Rightarrow> bool) option"
  dry_run_create :: bool

text \<open>
  \<^verbatim>\<open>_is_valid_generated_type\<close>; the name filter \<^verbatim>\<open>re.search(self._only_types_regex, name)\<close>
  is a predicate on names.
\<close>

definition is_valid_generated_type :: "evaluator \<Rightarrow> generated_type \<Rightarrow> bool" where
  "is_valid_generated_type ev g =
     (if (case only_types_regex ev of
            Some matches \<Rightarrow> \<not> matches (or_empty (g_semanticType g))
          | None \<Rightarrow> False)
      then False
      else if g_pluginType g = Some ''java'' then False
      else truthy (g_semanticType g) \<and> truthy (g_description g) \<and> truthy (g_pluginType g))"

text \<open>\<^verbatim>\<open>_refresh_existing_types_cache\<close>\<close>

definition cache_of :: "custom_type list \<Rightarrow> (string \<times> custom_type) list" where
  "cache_of types =
     foldl (\<lambda>cache t. if truthy (ct_semanticType t)
                       then dict_set (or_empty (ct_semanticType t)) t cache else cache)
       [] types"

definition refresh_existing_types_cache ::
  "('r \<Rightarrow> request \<Rightarrow> reply \<times> 'r) \<Rightarrow> evaluator \<times> 'r net \<Rightarrow> evaluator \<times> 'r net" where
  "refresh_existing_types_cache serve s =
     (let (resp, n') = http serve GetCustomOnly (snd s)
      in case resp of
           Reply status types \<Rightarrow>
             if status = 200 then ((fst s)\<lparr>existing_types_cache := cache_of types\<rparr>, n')
             else (fst s, n')
         | NetworkError \<Rightarrow> (fst s, n'))"

text \<open>
  \<^verbatim>\<open>_upsert_custom_type\<close>: the result is \<open>Inr\<close> of the returned boolean, or \<open>Inl\<close> when an
  exception leaves the function (a failed HTTP call), together with the state reached. A
  cached dictionary is never empty, so \<^verbatim>\<open>existing and ...\<close> tests its presence.
\<close>

definition final_response ::
  "('r \<Rightarrow> request \<Rightarrow> reply \<times> 'r) \<Rightarrow> string \<Rightarrow> custom_type \<Rightarrow> evaluator \<Rightarrow> nat \<Rightarrow> 'r net \<Rightarrow>
   (py_error + bool) \<times> evaluator \<times> 'r net" where
  "final_response serve type_name custom_type ev status n =
     (if status = 200 \<or> status = 201
      then (Inr True,
            ev\<lparr>created_types := insert type_name (created_types ev),
               existing_types_cache := dict_set type_name custom_type (existing_types_cache ev)\<rparr>,
            n)
      else (Inr False, ev, n))"

definition upsert_custom_type ::
  "('r \<Rightarrow> request \<Rightarrow> reply \<times> 'r) \<Rightarrow> custom_type \<Rightarrow> evaluator \<times> 'r net \<Rightarrow>
   (py_error + bool) \<times> evaluator \<times> 'r net" where
  "upsert_custom_type serve custom_type s =
     (let (ev, n) = (if existing_types_cache (fst s) = []
                     then refresh_existing_types_cache serve s else s)
      in case ct_semanticType custom_type of
           None \<Rightarrow> (Inl KeyError, ev, n)
         | Some type_name \<Rightarrow>
             (let existing = map_of (existing_types_cache ev) type_name
              in if (case existing of Some e \<Rightarrow> is_same_type e custom_type | None \<Rightarrow> False)
                 then (Inr False, ev, n)
                 else if dry_run_create ev then (Inr False, ev, n)
                 else
                   (let payload = custom_type\<lparr>ct_ephemeral := Some True\<rparr>;
                        first = (if existing \<noteq> None then Put type_name payload else Post payload);
                        (resp, n1) = http serve first n
                    in case resp of
                         NetworkError \<Rightarrow> (Inl ConnectionError, ev, n1)
                       | Reply status body \<Rightarrow>
                           if status = 404 \<and> existing \<noteq> None then
                             (let (resp2, n2) = http serve (Post payload) n1
                              in case resp2 of
                                   NetworkError \<Rightarrow> (Inl ConnectionError, ev, n2)
                                 | Reply status2 body2 \<Rightarrow>
                                     final_response serve type_name payload ev status2 n2)
                           else if status = 409 \<and> existing = None then
                             (let (resp2, n2) = http serve (Put type_name payload) n1
                              in case resp2 of
                                   NetworkError \<Rightarrow> (Inl ConnectionError, ev, n2)
                                 | Reply status2 body2 \<Rightarrow>
                                     final_response serve type_name payload ev status2 n2)
                           else final_response serve type_name payload ev status n1)))"

text \<open>
  \<^verbatim>\<open>create_custom_type\<close>: validation, payload, upsert; every exception is caught and gives
  \<^verbatim>\<open>False\<close>, in the state reached when it was raised.
\<close>

definition create_custom_type ::
  "('r \<Rightarrow> request \<Rightarrow> reply \<times> 'r) \<Rightarrow> generated_type \<Rightarrow> evaluator \<times> 'r net \<Rightarrow>
   bool \<times> evaluator \<times> 'r net" where
  "create_custom_type serve g s =
     (if \<not> is_valid_generated_type (fst s) g then (False, s)
      else case build_custom_type_payload g of
             Inl e \<Rightarrow> (False, s)
           | Inr None \<Rightarrow> (False, s)
           | Inr (Some custom_type_payload) \<Rightarrow>
               (case upsert_custom_type serve custom_type_payload s of
                  (Inl e, s') \<Rightarrow> (False, s')
                | (Inr created, s') \<Rightarrow> (created, s')))"





subsection \<open>Example types and registries\<close>

text \<open>
  A valid \<^verbatim>\<open>regex\<close> type, and the \<^verbatim>\<open>list\<close> type with the values \<^verbatim>\<open>CA\<close>, \<^verbatim>\<open>NY\<close> and no
  backout pattern.
\<close>

definition example_regex_type :: generated_type where
  "example_regex_type =
     \<lparr>g_semanticType = Some ''ZIP'', g_description = Some ''US zip code'',
      g_pluginType = Some ''regex'', g_baseType = None, g_confidenceThreshold = None,
      g_priority = None, g_regexPattern = Present ''[0-9]{5}'', g_listValues = None,
      g_backout = None, g_headerPatterns = None\<rparr>"

definition example_list_type :: generated_type where
  "example_list_type =
     \<lparr>g_semanticType = Some ''STATE'', g_description = Some ''US state code'',
      g_pluginType = Some ''list'', g_baseType = None, g_confidenceThreshold = None,
      g_priority = None, g_regexPattern = Absent,
      g_listValues = Some [Some ''CA'', Some ''NY''],
      g_backout = None, g_headerPatterns = None\<rparr>"



text \<open>
  A registry that stores what it is sent (its state is the list of its types), and a
  registry that lists nothing and answers every write with status 500.
\<close>

definition accepting_registry :: "custom_type list \<Rightarrow> request \<Rightarrow> reply \<times> custom_type list" where
  "accepting_registry r req =
     (case req of
        GetCustomOnly \<Rightarrow> (Reply 200 r, r)
      | Post p \<Rightarrow> (Reply 201 [], r @ [p])
      | Put nm p \<Rightarrow> (Reply 200 [], r @ [p]))"


definition initial_evaluator :: evaluator where
  "initial_evaluator =
     \<lparr>created_types = {}, existing_types_cache = [], only_types_regex = None,
      dry_run_create = False\<rparr>"

definition initial_net :: "'r \<Rightarrow> 'r net" where
  "initial_net r = \<lparr>registry = r, exchanges = []\<rparr>"

section \<open>Verification of the dataset loader\<close>

text \<open>
  The header loop keeps the invariant: no kept header is skippable, and both
  ground-truth maps have their keys among the kept headers.
\<close>

lemma store_label_dom: "dom (store_label idx r name gt) \<subseteq> insert name (dom gt)"
  by (auto simp: store_label_def split: option.splits if_splits)

lemma header_loop_inv:
  assumes "header_loop idx hs b c (h0, gb0, gc0) = (h1, gb1, gc1)"
      and "\<forall>h \<in> set h0. \<not> skip_header h"
      and "dom gb0 \<subseteq> set h0" and "dom gc0 \<subseteq> set h0"
  shows "(\<forall>h \<in> set h1. \<not> skip_header h) \<and> dom gb1 \<subseteq> set h1 \<and> dom gc1 \<subseteq> set h1"
  using assms
proof (induction hs arbitrary: idx h0 gb0 gc0)
  case Nil
  then show ?case by simp
next
  case (Cons h hs)
  show ?case
  proof (cases "skip_header (str_of_cell h)")
    case True
    with Cons.prems have "header_loop (Suc idx) hs b c (h0, gb0, gc0) = (h1, gb1, gc1)"
      by simp
    from Cons.IH[OF this Cons.prems(2-4)] show ?thesis .
  next
    case False
    let ?n = "str_of_cell h"
    from False Cons.prems have run: "header_loop (Suc idx) hs b c
        (h0 @ [?n], store_label idx b ?n gb0, store_label idx c ?n gc0) = (h1, gb1, gc1)"
      by (simp add: Let_def)
    have a: "\<forall>x \<in> set (h0 @ [?n]). \<not> skip_header x"
      using False Cons.prems(2) by auto
    have b: "dom (store_label idx b ?n gb0) \<subseteq> set (h0 @ [?n])"
      using store_label_dom[of idx b ?n gb0] Cons.prems(3) by auto
    have c: "dom (store_label idx c ?n gc0) \<subseteq> set (h0 @ [?n])"
      using store_label_dom[of idx c ?n gc0] Cons.prems(4) by auto
    from Cons.IH[OF run a b c] show ?thesis .
  qed
qed

text \<open>
  Claim C7. For every dataset frame with at least 4 rows the loader returns (it does not
  raise), no returned header is empty or equal to \<^verbatim>\<open>nan\<close> in any letter case, and the
  keys of the baseline and of the custom ground-truth map are among the returned headers.
\<close>

theorem load_universal_headers_and_keys:
  assumes "4 \<le> length df"
  shows "\<exists>r. load_universal df = Inr r
           \<and> (\<forall>h \<in> set (headers r). h \<noteq> [] \<and> lower h \<noteq> ''nan'')
           \<and> dom (gt_base r) \<subseteq> set (headers r)
           \<and> dom (gt_custom r) \<subseteq> set (headers r)"
proof -
  obtain hs gb gc where run:
    "header_loop 0 (df ! 2) (df ! 0) (df ! 1) ([], Map.empty, Map.empty) = (hs, gb, gc)"
    by (metis prod_cases3)
  from header_loop_inv[OF run] have inv:
    "(\<forall>h \<in> set hs. \<not> skip_header h) \<and> dom gb \<subseteq> set hs \<and> dom gc \<subseteq> set hs"
    by simp
  have "load_universal df = Inr \<lparr>headers = hs,
          data_rows = map (\<lambda>row. row_loop 0 hs row Map.empty) (drop 3 df),
          gt_base = gb, gt_custom = gc\<rparr>"
    using assms run by (simp add: load_universal_def)
  with inv show ?thesis by (simp add: skip_header_def)
qed

text \<open>The theorem at the example file.\<close>

theorem load_universal_headers_and_keys_witness:
  "4 \<le> length example_frame
   \<and> (\<exists>r. load_universal example_frame = Inr r
         \<and> (\<forall>h \<in> set (headers r). h \<noteq> [] \<and> lower h \<noteq> ''nan'')
         \<and> dom (gt_base r) \<subseteq> set (headers r)
         \<and> dom (gt_custom r) \<subseteq> set (headers r))"
proof -
  have h: "4 \<le> length example_frame"
    by (simp add: example_frame_def)
  from load_universal_headers_and_keys[OF h] h show ?thesis by blast
qed

text \<open>
  On the example file the loader keeps the headers \<open>A\<close> and \<open>C\<close> and cuts the custom
  label \<^verbatim>\<open>ZIP.2\<close> to \<^verbatim>\<open>ZIP\<close>.
\<close>

lemma load_universal_example:
  "load_universal example_frame = Inr r \<Longrightarrow>
     headers r = [''A'', ''C''] \<and> gt_base r ''A'' = Some ''NUM'' \<and> gt_custom r ''A'' = Some ''ZIP''"
  by (auto simp: load_universal_def example_frame_def Let_def skip_header_def str_of_cell_def
        lower_def lower_char_def upper_letters_def lower_letters_def store_label_def gt_label_def strip_def is_space_def
        before_first_dot_def)

text \<open>A file with fewer than 4 rows is rejected.\<close>

lemma load_universal_short: "length df < 4 \<Longrightarrow> load_universal df = Inl ValueError"
  by (simp add: load_universal_def)

section \<open>Bounds on float rounding\<close>

lemma pow2_powi: "pow2 k = 2 powi k"
  by (simp add: pow2_def power_int_def inverse_eq_divide power_one_over)

lemma pow2_pos: "0 < pow2 k"
  by (simp add: pow2_powi)

lemma pow2_mono: "k \<le> l \<Longrightarrow> pow2 k \<le> pow2 l"
  by (simp add: pow2_powi power_int_increasing)

lemma pow2_nat: "pow2 (int m) = 2 ^ m"
  by (simp add: pow2_powi)

lemma pow2_half: "pow2 (k - 1) = pow2 k / 2"
  by (simp add: pow2_powi power_int_diff)

lemma bit_length_lower: "0 < n \<Longrightarrow> 2 ^ (bit_length n - 1) \<le> n"
proof (induction n rule: bit_length.induct)
  case (1 n)
  show ?case
  proof (cases "n div 2 = 0")
    case True
    with 1(2) have "n = 1" by (auto simp: div_eq_0_iff)
    then show ?thesis by (simp add: bit_length.simps)
  next
    case False
    with 1 have ih: "2 ^ (bit_length (n div 2) - 1) \<le> n div 2" by simp
    from False have pos: "0 < bit_length (n div 2)"
      by (subst bit_length.simps) simp
    have "bit_length n - 1 = bit_length (n div 2)"
      using 1(2) by (subst bit_length.simps) simp
    also have "\<dots> = Suc (bit_length (n div 2) - 1)" using pos by simp
    finally have "(2::nat) ^ (bit_length n - 1) = 2 * 2 ^ (bit_length (n div 2) - 1)" by simp
    also have "\<dots> \<le> 2 * (n div 2)" using ih by simp
    also have "\<dots> \<le> n" by simp
    finally show ?thesis .
  qed
qed

lemma bit_length_pos: "0 < n \<Longrightarrow> 0 < bit_length n"
  by (subst bit_length.simps) simp

lemma ilog2_ge1:
  assumes "1 \<le> a"
  shows "0 \<le> ilog2 a" and "pow2 (ilog2 a) \<le> a"
proof -
  let ?n = "nat \<lfloor>a\<rfloor>"
  have fl: "1 \<le> \<lfloor>a\<rfloor>" using assms by linarith
  then have n: "0 < ?n" by simp
  have il: "ilog2 a = int (bit_length ?n - 1)"
    using assms bit_length_pos[OF n] by (simp add: ilog2_def)
  show "0 \<le> ilog2 a" by (simp add: il)
  have "pow2 (ilog2 a) = 2 ^ (bit_length ?n - 1)" by (simp add: il pow2_nat)
  also have "\<dots> = of_nat (2 ^ (bit_length ?n - 1))" by simp
  also have "\<dots> \<le> of_nat ?n" using bit_length_lower[OF n] by (simp only: of_nat_le_iff)
  also have "\<dots> = of_int \<lfloor>a\<rfloor>" using fl by simp
  also have "\<dots> \<le> a" by simp
  finally show "pow2 (ilog2 a) \<le> a" .
qed

lemma ilog2_lt1: "a < 1 \<Longrightarrow> ilog2 a \<le> 0"
  by (simp add: ilog2_def)

lemma rhe_bounds: "of_int (round_half_even y) \<le> y + 1 / 2" "y - 1 / 2 \<le> of_int (round_half_even y)"
proof -
  show "of_int (round_half_even y) \<le> y + 1 / 2"
    unfolding round_half_even_def Let_def by (simp; linarith)
  show "y - 1 / 2 \<le> of_int (round_half_even y)"
    unfolding round_half_even_def Let_def by (simp; linarith)
qed

lemma rhe_nonneg: "0 \<le> y \<Longrightarrow> 0 \<le> round_half_even y"
  by (auto simp: round_half_even_def Let_def)


text \<open>The rounding error is at most half a unit in the last place.\<close>

lemma fl_round_abs:
  assumes "q \<noteq> 0"
  defines "ulp \<equiv> pow2 (max (ilog2 \<bar>q\<bar>) (- 1022) - 52)"
  shows "\<bar>fl_round q\<bar> \<le> \<bar>q\<bar> + ulp / 2" and "\<bar>q\<bar> - ulp / 2 \<le> \<bar>fl_round q\<bar>"
proof -
  have up: "0 < ulp" by (simp add: ulp_def pow2_pos)
  let ?m = "round_half_even (\<bar>q\<bar> / ulp)"
  have m0: "0 \<le> ?m" using up by (intro rhe_nonneg) simp
  have f: "fl_round q = sgn q * of_int ?m * ulp"
    using assms(1) by (simp add: fl_round_def Let_def ulp_def)
  have "\<bar>fl_round q\<bar> = \<bar>sgn q\<bar> * \<bar>of_int ?m\<bar> * \<bar>ulp\<bar>"
    by (simp add: f abs_mult)
  also have "\<dots> = of_int ?m * ulp"
    using assms(1) m0 up by (simp add: abs_sgn_eq)
  finally have ab: "\<bar>fl_round q\<bar> = of_int ?m * ulp" .
  have "of_int ?m \<le> \<bar>q\<bar> / ulp + 1 / 2" by (rule rhe_bounds)
  then have "of_int ?m * ulp \<le> (\<bar>q\<bar> / ulp + 1 / 2) * ulp"
    using up by (simp only: mult_le_cancel_right_pos)
  also have "\<dots> = \<bar>q\<bar> + ulp / 2" using up by (simp add: field_simps)
  finally show "\<bar>fl_round q\<bar> \<le> \<bar>q\<bar> + ulp / 2" by (simp add: ab)
  have "\<bar>q\<bar> / ulp - 1 / 2 \<le> of_int ?m" by (rule rhe_bounds)
  then have "(\<bar>q\<bar> / ulp - 1 / 2) * ulp \<le> of_int ?m * ulp"
    using up by (simp only: mult_le_cancel_right_pos)
  moreover have "(\<bar>q\<bar> / ulp - 1 / 2) * ulp = \<bar>q\<bar> - ulp / 2" using up by (simp add: field_simps)
  ultimately show "\<bar>q\<bar> - ulp / 2 \<le> \<bar>fl_round q\<bar>" by (simp add: ab)
qed

lemma fl_round_large:
  assumes "1 \<le> \<bar>q\<bar>"
  shows "\<bar>fl_round q\<bar> \<le> 5 / 4 * \<bar>q\<bar>" and "3 / 4 * \<bar>q\<bar> \<le> \<bar>fl_round q\<bar>"
proof -
  have q0: "q \<noteq> 0" using assms by auto
  have e: "max (ilog2 \<bar>q\<bar>) (- 1022) = ilog2 \<bar>q\<bar>"
    using ilog2_ge1(1)[OF assms] by simp
  have "pow2 (ilog2 \<bar>q\<bar> - 52) \<le> pow2 (ilog2 \<bar>q\<bar> - 1)" by (rule pow2_mono) simp
  also have "\<dots> = pow2 (ilog2 \<bar>q\<bar>) / 2" by (rule pow2_half)
  also have "\<dots> \<le> \<bar>q\<bar> / 2" using ilog2_ge1(2)[OF assms] by simp
  finally have u: "pow2 (max (ilog2 \<bar>q\<bar>) (- 1022) - 52) \<le> \<bar>q\<bar> / 2" by (simp add: e)
  from fl_round_abs(1)[OF q0] u show "\<bar>fl_round q\<bar> \<le> 5 / 4 * \<bar>q\<bar>" by simp
  from fl_round_abs(2)[OF q0] u show "3 / 4 * \<bar>q\<bar> \<le> \<bar>fl_round q\<bar>" by simp
qed

lemma fl_round_small:
  assumes "\<bar>q\<bar> < 1"
  shows "\<bar>fl_round q\<bar> \<le> 3 / 2"
proof (cases "q = 0")
  case True
  then show ?thesis by (simp add: fl_round_def)
next
  case False
  have "max (ilog2 \<bar>q\<bar>) (- 1022) - 52 \<le> 0"
    using ilog2_lt1[OF assms] by simp
  then have "pow2 (max (ilog2 \<bar>q\<bar>) (- 1022) - 52) \<le> pow2 0" by (rule pow2_mono)
  then have u: "pow2 (max (ilog2 \<bar>q\<bar>) (- 1022) - 52) \<le> 1" by (simp add: pow2_def)
  from fl_round_abs(1)[OF False] u assms show ?thesis by simp
qed


section \<open>Verification of the threshold resolution\<close>


text \<open>No float of magnitude up to \<open>200 * 2^1000\<close> rounds to infinity.\<close>

lemma fl_round_bounded:
  assumes "\<bar>q\<bar> \<le> 200 * 2 ^ 1000"
  shows "\<not> fl_overflows q"
proof (cases "1 \<le> \<bar>q\<bar>")
  case True
  have "\<bar>fl_round q\<bar> \<le> 5 / 4 * \<bar>q\<bar>" by (rule fl_round_large(1)[OF True])
  also have "\<dots> \<le> 5 / 4 * (200 * 2 ^ 1000)" using assms by simp
  also have "\<dots> < 2 ^ 1024" by simp
  finally show ?thesis by (simp add: fl_overflows_def)
next
  case False
  then have "\<bar>fl_round q\<bar> \<le> 3 / 2" by (intro fl_round_small) simp
  also have "(3 / 2 :: rat) < 2 ^ 1024" by simp
  finally show ?thesis by (simp add: fl_overflows_def)
qed

text \<open>
  So the float operations of the threshold resolution stay finite on every number of
  magnitude up to \<open>2^1000\<close>.
\<close>

lemma finite_product:
  assumes "\<bar>x\<bar> \<le> 2 ^ 1000"
  shows "\<not> fl_overflows (x * 100)"
proof -
  have "\<bar>x * 100\<bar> \<le> 200 * 2 ^ 1000" using assms by (simp add: abs_mult)
  then show ?thesis by (rule fl_round_bounded)
qed


subsection \<open>The cases of the resolution\<close>

lemma clamp_threshold_eq:
  "clamp_threshold t = (if t < 80 then 95 else if 100 < t then 100 else t)"
  by (simp add: clamp_threshold_def Let_def)




lemma resolve_fraction:
  assumes "x \<le> 1" and "\<not> fl_overflows (x * 100)"
  shows "resolve_threshold (Some (PyFloat (Finite x)))
           = Inr (clamp_threshold (round_half_even (fl_round (x * 100))))"
  using assms
  by (simp add: resolve_threshold_def raw_threshold_int_def le_one_def times_100_def py_round_def)











subsection \<open>The threshold of the payload\<close>















text \<open>
  An infinite float (the JSON number \<^verbatim>\<open>1e999\<close>) raises \<^verbatim>\<open>OverflowError\<close> in the same
  way, in \<^verbatim>\<open>int\<close> when it is positive and in \<^verbatim>\<open>round\<close> when it is negative.
\<close>

lemma resolve_threshold_infinite:
  "resolve_threshold (Some (PyFloat PosInf)) = Inl OverflowError"
  "resolve_threshold (Some (PyFloat NegInf)) = Inl OverflowError"
  by (simp_all add: resolve_threshold_def raw_threshold_int_def le_one_def int_of_float_def
        times_100_def py_round_def)

lemma round_805:
  "round_half_even (fl_round (7250795400066499 / 9007199254740992 * 100)) = 80"
  by code_simp

text \<open>
  The double nearest to 0.805 is a little above 0.805; its product with 100 rounds to the
  double 80.5, and Python rounds 80.5 to the even integer 80.
\<close>

lemma resolve_threshold_805:
  "resolve_threshold (Some (PyFloat (Finite (7250795400066499 / 9007199254740992)))) = Inr 80"
proof -
  have "\<not> fl_overflows (7250795400066499 / 9007199254740992 * 100)"
    by (rule finite_product) simp
  then have 1: "resolve_threshold (Some (PyFloat (Finite (7250795400066499 / 9007199254740992))))
        = Inr (clamp_threshold (round_half_even
                 (fl_round (7250795400066499 / 9007199254740992 * 100))))"
    by (intro resolve_fraction) simp_all
  show ?thesis unfolding 1 round_805 by (simp add: clamp_threshold_eq)
qed
section \<open>Verification of the profiling client\<close>

text \<open>
  Claim C5 (as amended). \<^verbatim>\<open>profile_data\<close> reports a status other than 200 as
  \<^verbatim>\<open>RuntimeError\<close> and a timeout as \<^verbatim>\<open>TimeoutError\<close>. \<^verbatim>\<open>profile_rows\<close> never raises:
  for a status other than 200 it returns the empty classification structure itself,
  which parses to the empty prediction map; for a timeout it returns \<^verbatim>\<open>{}\<close>, which
  the prediction parser of its callers rejects with \<^verbatim>\<open>ValueError\<close>.
\<close>

theorem profiling_failure_reporting:
  "(post request = Response status body \<and> status \<noteq> 200
      \<longrightarrow> profile_data post request = Inl RuntimeError)
   \<and> (post request = Timeout \<longrightarrow> profile_data post request = Inl TimeoutError)
   \<and> (post (build_request cfg cols rows co) = Response status body \<and> status \<noteq> 200
      \<longrightarrow> profile_rows post cfg cols rows co = empty_classifications
          \<and> parse_predictions (profile_rows post cfg cols rows co) = Inr [])
   \<and> (post (build_request cfg cols rows co) = Timeout
      \<longrightarrow> profile_rows post cfg cols rows co = empty_dict
          \<and> parse_predictions (profile_rows post cfg cols rows co) = Inl ValueError)"
  by (simp add: profile_data_def profile_rows_def parse_predictions_def
        empty_classifications_def empty_dict_def)

text \<open>The theorem at the service that answers 500 and at the one that times out.\<close>

theorem profiling_failure_reporting_witness:
  "failing_service (build_request default_config [''A''] [] True) = Response 500 None
   \<and> 500 \<noteq> (200 :: nat)
   \<and> profile_data failing_service (build_request default_config [''A''] [] True)
       = Inl RuntimeError
   \<and> profile_rows failing_service default_config [''A''] [] True = empty_classifications"
  using profiling_failure_reporting[of failing_service
          "build_request default_config [''A''] [] True" 500 None default_config "[''A'']" "[]" True]
  by (simp add: failing_service_def)

text \<open>
  Claim C5 as stated says that the client never turns a failed call into a
  normal-looking result. With the service that answers 500, \<^verbatim>\<open>profile_rows\<close> gives its
  caller the empty prediction map, the same result as with a service that answers 200
  with an empty classification.
\<close>

theorem profile_rows_swallows_failure:
  "parse_predictions (profile_rows failing_service default_config [''A''] [] True) = Inr []
   \<and> profile_rows failing_service default_config [''A''] [] True
     = profile_rows empty_service default_config [''A''] [] True"
  by (simp add: profile_rows_def failing_service_def empty_service_def parse_predictions_def
        empty_classifications_def)

text \<open>
  With the service that does not answer in time, \<^verbatim>\<open>profile_rows\<close> returns \<^verbatim>\<open>{}\<close> and
  the parser of its callers raises \<^verbatim>\<open>ValueError\<close>; \<^verbatim>\<open>profile_data\<close> raises
  \<^verbatim>\<open>TimeoutError\<close>.
\<close>

lemma profiling_timeout_example:
  "profile_rows slow_service default_config [''A''] [] True = empty_dict"
  "parse_predictions (profile_rows slow_service default_config [''A''] [] True) = Inl ValueError"
  "profile_data slow_service (build_request default_config [''A''] [] True) = Inl TimeoutError"
  by (simp_all add: profile_rows_def profile_data_def slow_service_def parse_predictions_def
        empty_dict_def)

section \<open>Verification of the per-column outcome\<close>


lemma map_of_dict_set: "map_of (dict_set k v kvs) = (map_of kvs)(k \<mapsto> v)"
  by (induction kvs) (auto simp: fun_eq_iff)

lemma map_of_bump:
  "map_of (bump b c totals k) = (map_of totals)(k \<mapsto> bumped b c k (map_of totals k))"
  by (simp add: bump_def bumped_def map_of_dict_set Let_def)

lemma map_of_foldl_bump:
  "distinct cols \<Longrightarrow>
   map_of (foldl (bump b c) totals cols) col =
     (if col \<in> set cols then Some (bumped b c col (map_of totals col)) else map_of totals col)"
proof (induction cols arbitrary: totals)
  case Nil
  then show ?case by simp
next
  case (Cons k ks)
  then show ?case by (auto simp: map_of_bump)
qed

lemma map_of_aggregate_file:
  "map_of (aggregate_file totals f) col =
     (if occurs_in col f then Some (bumped (fst f) (snd f) col (map_of totals col))
      else map_of totals col)"
  unfolding aggregate_file_def
  by (subst map_of_foldl_bump) (auto simp: occurs_in_def)

lemma aggregate_snoc:
  "aggregate_per_column_outcome (fs @ [f]) = aggregate_file (aggregate_per_column_outcome fs) f"
  by (simp add: aggregate_per_column_outcome_def)

lemma map_of_aggregate:
  "map_of (aggregate_per_column_outcome files) col = expected_stats files col"
proof (induction files rule: rev_induct)
  case Nil
  then show ?case by (simp add: aggregate_per_column_outcome_def expected_stats_def)
next
  case (snoc f fs)
  show ?case
  proof (cases "occurs_in col f")
    case False
    then show ?thesis
      using snoc by (simp add: aggregate_snoc map_of_aggregate_file expected_stats_def)
  next
    case True
    then show ?thesis
      using snoc
      by (auto simp: aggregate_snoc map_of_aggregate_file expected_stats_def bumped_def Let_def
            count_where_def filter_empty_conv)
  qed
qed

lemma count_where_all: "count_where P xs = length xs \<longleftrightarrow> list_all P xs"
proof (induction xs)
  case Nil
  then show ?case by (simp add: count_where_def)
next
  case (Cons x xs)
  have "length (filter P xs) < Suc (length xs)"
    by (simp add: le_imp_less_Suc)
  then show ?case using Cons by (auto simp: count_where_def)
qed

subsection \<open>What the correctness maps hold\<close>

text \<open>
  Both correctness maps of a file hold exactly the columns that the service returned and
  that the ground truth of the track labels; the entry of a column says whether the
  predicted label (of the last entry for the column; a dict has one) is the label.
\<close>

lemma keys_dict_set: "fst ` set (dict_set k v kvs) = insert k (fst ` set kvs)"
proof (induction kvs)
  case Nil
  then show ?case by simp
next
  case (Cons kv kvs)
  obtain k' v' where kv: "kv = (k', v')" by (cases kv)
  show ?case
  proof (cases "k' = k")
    case True
    then show ?thesis by (simp add: kv)
  next
    case False
    then show ?thesis using Cons by (simp add: kv insert_commute)
  qed
qed

lemma pccm_step:
  "per_column_correct_map ((c, cl) # preds) gt acc =
     per_column_correct_map preds gt
       (if no_label (gt c) then acc
        else dict_set c \<lparr>oc_correct = (predicted_type_of cl = the (gt c)),
                          oc_semantic_type = predicted_type_of cl\<rparr> acc)"
  by (cases "gt c") (simp_all add: no_label_def truthy_def)

lemma pccm_keys:
  "fst ` set (per_column_correct_map preds gt acc) =
     fst ` set acc \<union> {col. col \<in> fst ` set preds \<and> \<not> no_label (gt col)}"
proof (induction preds arbitrary: acc)
  case Nil
  then show ?case by simp
next
  case (Cons p preds)
  obtain c cl where p: "p = (c, cl)" by (cases p)
  show ?case
  proof (cases "no_label (gt c)")
    case True
    then show ?thesis
      unfolding p pccm_step Cons by auto
  next
    case False
    then show ?thesis
      unfolding p pccm_step Cons by (auto simp: keys_dict_set)
  qed
qed

lemma map_of_snoc:
  "map_of (xs @ [(c, v)]) col =
     (case map_of xs col of Some x \<Rightarrow> Some x | None \<Rightarrow> if c = col then Some v else None)"
  by (simp add: map_add_def split: option.splits)

lemma pccm_lookup:
  "map_of (per_column_correct_map preds gt acc) col =
     (case map_of (rev preds) col of
        Some cl \<Rightarrow> if no_label (gt col) then map_of acc col
                    else Some (col_outcome_of cl (the (gt col)))
      | None \<Rightarrow> map_of acc col)"
proof (induction preds arbitrary: acc)
  case Nil
  then show ?case by simp
next
  case (Cons p preds)
  obtain c cl where p: "p = (c, cl)" by (cases p)
  show ?case
    unfolding p pccm_step Cons
    by (auto simp: map_of_snoc map_of_dict_set col_outcome_of_def split: option.splits if_splits)
qed

lemma no_label_Some: "\<not> no_label v \<longleftrightarrow> (\<exists>t. v = Some t \<and> \<not> no_label (Some t))"
  by (cases v) (auto simp: no_label_def truthy_def)

lemma pccm_is_correct:
  "is_correct (per_column_correct_map preds gt []) col \<longleftrightarrow>
     (\<exists>cl t. map_of (rev preds) col = Some cl \<and> gt col = Some t \<and> \<not> no_label (Some t)
             \<and> predicted_type_of cl = t)"
proof (cases "map_of (rev preds) col")
  case None
  then show ?thesis by (simp add: is_correct_def pccm_lookup)
next
  case (Some cl)
  show ?thesis
  proof (cases "no_label (gt col)")
    case True
    then show ?thesis using Some by (auto simp: is_correct_def pccm_lookup)
  next
    case False
    then obtain t where t: "gt col = Some t" "\<not> no_label (Some t)"
      using no_label_Some by blast
    then show ?thesis using Some by (simp add: is_correct_def pccm_lookup col_outcome_of_def)
  qed
qed

lemma pccm_occurs:
  "occurs_in col (per_column_correct_map bp bgt [], per_column_correct_map cp cgt []) \<longleftrightarrow>
     (col \<in> fst ` set bp \<and> \<not> no_label (bgt col)) \<or> (col \<in> fst ` set cp \<and> \<not> no_label (cgt col))"
  by (simp add: occurs_in_def pccm_keys)

lemma cml_step:
  "correct_map_loop ((c, cl) # preds) gt acc =
     correct_map_loop preds gt
       (if no_label (gt c) then acc else acc(c \<mapsto> (predicted_type_of cl = the (gt c))))"
  by (cases "gt c") (simp_all add: no_label_def truthy_def)

lemma cml_lookup:
  "correct_map_loop preds gt acc col =
     (case map_of (rev preds) col of
        Some cl \<Rightarrow> if no_label (gt col) then acc col
                    else Some (predicted_type_of cl = the (gt col))
      | None \<Rightarrow> acc col)"
proof (induction preds arbitrary: acc)
  case Nil
  then show ?case by simp
next
  case (Cons p preds)
  obtain c cl where p: "p = (c, cl)" by (cases p)
  show ?case
    unfolding p cml_step Cons
    by (auto simp: map_of_snoc split: option.splits if_splits)
qed

lemma ccm_true:
  "compute_correct_map preds gt col = Some True \<longleftrightarrow>
     (\<exists>cl t. map_of (rev preds) col = Some cl \<and> gt col = Some t \<and> \<not> no_label (Some t)
             \<and> predicted_type_of cl = t)"
proof (cases "map_of (rev preds) col")
  case None
  then show ?thesis by (simp add: compute_correct_map_def cml_lookup)
next
  case (Some cl)
  show ?thesis
  proof (cases "no_label (gt col)")
    case True
    then show ?thesis using Some by (auto simp: compute_correct_map_def cml_lookup)
  next
    case False
    then obtain t where t: "gt col = Some t" "\<not> no_label (Some t)"
      using no_label_Some by blast
    then show ?thesis using Some by (simp add: compute_correct_map_def cml_lookup)
  qed
qed

subsection \<open>The outcome of a column\<close>

text \<open>
  Claim C4 (as amended). In the aggregate table of \<^verbatim>\<open>_evaluate_and_compare_description\<close>
  a column has a row iff it occurs in some file; its total is the number of files where
  it occurs, and its outcome is \<open>both\<close>, \<open>custom only\<close>, \<open>baseline only\<close> or \<open>neither\<close>
  according to whether the baseline and the custom prediction are correct in all files
  where the column occurs. A column occurs in a file iff the service returned a
  prediction for it and it is labelled, in the baseline run (baseline predictions and
  baseline labels) or in the custom run (custom predictions and custom labels); a side
  is correct in a file iff that run returned the column, the track labels it and the
  predicted label is the label. So a file where a labelled column is missing from the
  predictions of both runs is no occurrence. In the table of
  \<^verbatim>\<open>run_comparative_evaluation\<close> the outcome of a column is decided by whether the
  baseline and the custom prediction are correct, in the same sense, in at least one
  file.
\<close>

theorem per_column_outcome_classification:
  "(map_of (aggregate_per_column_outcome files) col = Some st \<longrightarrow>
      total st = length (filter (occurs_in col) files)
      \<and> outcome_label st =
          outcome_of (list_all (\<lambda>f. is_correct (fst f) col) (filter (occurs_in col) files))
                     (list_all (\<lambda>f. is_correct (snd f) col) (filter (occurs_in col) files)))
   \<and> (map_of (aggregate_per_column_outcome files) col = None \<longleftrightarrow>
        filter (occurs_in col) files = [])
   \<and> (occurs_in col (per_column_correct_map bp bgt [], per_column_correct_map cp cgt []) \<longleftrightarrow>
        (col \<in> fst ` set bp \<and> \<not> no_label (bgt col))
        \<or> (col \<in> fst ` set cp \<and> \<not> no_label (cgt col)))
   \<and> (is_correct (per_column_correct_map preds gt []) col \<longleftrightarrow>
        (\<exists>cl t. map_of (rev preds) col = Some cl \<and> gt col = Some t \<and> \<not> no_label (Some t)
                \<and> predicted_type_of cl = t))
   \<and> summary_outcome baseline_correct_maps custom_correct_maps col =
        outcome_of (list_ex (\<lambda>m. m col = Some True) baseline_correct_maps)
                   (list_ex (\<lambda>m. m col = Some True) custom_correct_maps)
   \<and> (compute_correct_map preds gt col = Some True \<longleftrightarrow>
        (\<exists>cl t. map_of (rev preds) col = Some cl \<and> gt col = Some t \<and> \<not> no_label (Some t)
                \<and> predicted_type_of cl = t))"
proof -
  have g: "\<And>m. get_or_false m col = (m col = Some True)"
    by (simp add: get_or_false_def split: option.splits)
  have s: "summary_outcome baseline_correct_maps custom_correct_maps col =
        outcome_of (list_ex (\<lambda>m. m col = Some True) baseline_correct_maps)
                   (list_ex (\<lambda>m. m col = Some True) custom_correct_maps)"
    by (simp add: summary_outcome_def g)
  have n: "map_of (aggregate_per_column_outcome files) col = None \<longleftrightarrow>
        filter (occurs_in col) files = []"
    by (simp add: map_of_aggregate expected_stats_def Let_def)
  have a: "map_of (aggregate_per_column_outcome files) col = Some st \<longrightarrow>
      total st = length (filter (occurs_in col) files)
      \<and> outcome_label st =
          outcome_of (list_all (\<lambda>f. is_correct (fst f) col) (filter (occurs_in col) files))
                     (list_all (\<lambda>f. is_correct (snd f) col) (filter (occurs_in col) files))"
    by (auto simp: map_of_aggregate expected_stats_def outcome_label_def Let_def count_where_all
          split: if_splits)
  from a n s pccm_occurs[of col bp bgt cp cgt] pccm_is_correct[of preds gt col]
    ccm_true[of preds gt col]
  show ?thesis by blast
qed

text \<open>
  Claim C4 as stated asks for correctness in all occurrences in the comparative run too.
  In the example the column \<open>A\<close> is wrong in the second file on both tracks, and the
  table of \<^verbatim>\<open>run_comparative_evaluation\<close> says \<open>both\<close>.
\<close>

theorem summary_counts_any_occurrence:
  "summary_outcome example_correct_maps example_correct_maps ''A'' = Both
   \<and> get_or_false (compute_correct_map example_preds_wrong example_gt) ''A'' = False"
  by (simp add: summary_outcome_def example_correct_maps_def compute_correct_map_def
        example_preds_right_def example_preds_wrong_def example_gt_def no_label_def truthy_def
        predicted_type_of_def py_or_def get_or_false_def outcome_of_def)

text \<open>On the same two files the aggregate table counts one correct file of two.\<close>

lemma aggregate_example: "map_of (aggregate_per_column_outcome example_files) ''A'' =
   Some \<lparr>total = 2, baseline_correct = 1, custom_correct = 1\<rparr>"
  by (simp add: aggregate_per_column_outcome_def aggregate_file_def bump_def example_files_def
        example_preds_right_def example_preds_wrong_def example_gt_def no_label_def truthy_def
        predicted_type_of_def py_or_def is_correct_def Let_def)

text \<open>
  A file where the labelled column is missing from the predictions of both runs is no
  occurrence: with \<open>A\<close> right in the first file and not returned in the second, the
  total is 1 and the outcome is \<open>both\<close>.
\<close>

lemma missing_prediction_is_no_occurrence:
  "map_of (aggregate_per_column_outcome
      [(per_column_correct_map example_preds_right example_gt [],
        per_column_correct_map example_preds_right example_gt []),
       (per_column_correct_map [] example_gt [], per_column_correct_map [] example_gt [])]) ''A''
   = Some \<lparr>total = 1, baseline_correct = 1, custom_correct = 1\<rparr>
   \<and> outcome_label \<lparr>total = 1, baseline_correct = 1, custom_correct = 1\<rparr> = Both"
  by (simp add: aggregate_per_column_outcome_def aggregate_file_def bump_def
        example_preds_right_def example_gt_def no_label_def truthy_def
        predicted_type_of_def py_or_def is_correct_def outcome_label_def outcome_of_def Let_def)

text \<open>The theorem at the example files: the column \<open>A\<close> is \<open>neither\<close> there.\<close>

theorem per_column_outcome_classification_witness:
  "map_of (aggregate_per_column_outcome example_files) ''A''
     = Some \<lparr>total = 2, baseline_correct = 1, custom_correct = 1\<rparr>
   \<and> outcome_label \<lparr>total = 2, baseline_correct = 1, custom_correct = 1\<rparr>
     = outcome_of (list_all (\<lambda>f. is_correct (fst f) ''A'') (filter (occurs_in ''A'') example_files))
                  (list_all (\<lambda>f. is_correct (snd f) ''A'') (filter (occurs_in ''A'') example_files))
   \<and> outcome_label \<lparr>total = 2, baseline_correct = 1, custom_correct = 1\<rparr> = Neither"
proof -
  have o: "outcome_label \<lparr>total = 2, baseline_correct = 1, custom_correct = 1\<rparr> = Neither"
    by (simp add: outcome_label_def outcome_of_def)
  from per_column_outcome_classification[where files = example_files and col = "''A''"
         and st = "\<lparr>total = 2, baseline_correct = 1, custom_correct = 1\<rparr>"]
       aggregate_example o
  show ?thesis by blast
qed

section \<open>Verification of the type lifecycle manager\<close>

subsection \<open>Rejected list types\<close>

text \<open>
  Claim C6. For every \<^verbatim>\<open>list\<close> type whose backout pattern is missing or blank (whatever
  its value list is, \<^verbatim>\<open>["CA", "NY"]\<close> included), \<^verbatim>\<open>create_custom_type\<close> returns
  \<^verbatim>\<open>False\<close> and leaves the evaluator and the network as they were: no request is sent
  to the registry, neither a write nor the listing.
\<close>

theorem list_without_backout_rejected:
  assumes "g_pluginType g = Some ''list''" and "strip (or_empty (g_backout g)) = []"
  shows "create_custom_type serve g (ev, n) = (False, ev, n)"
  using assms
  by (simp add: create_custom_type_def build_custom_type_payload_def add_list_content_def Let_def
        split: sum.splits option.splits)

text \<open>The theorem at the list type with the values \<^verbatim>\<open>CA\<close>, \<^verbatim>\<open>NY\<close> and no backout.\<close>

theorem list_without_backout_rejected_witness:
  "g_pluginType example_list_type = Some ''list''
   \<and> strip (or_empty (g_backout example_list_type)) = []
   \<and> create_custom_type accepting_registry example_list_type (initial_evaluator, initial_net [])
     = (False, initial_evaluator, initial_net [])"
proof -
  have a: "g_pluginType example_list_type = Some ''list''"
    by (simp add: example_list_type_def)
  have b: "strip (or_empty (g_backout example_list_type)) = []"
    by (simp add: example_list_type_def or_empty_def strip_def)
  from list_without_backout_rejected[OF a b] a b show ?thesis by blast
qed

subsection \<open>Idempotent upsert\<close>









text \<open>
  A cached entry with a \<^verbatim>\<open>null\<close> confidence in a header pattern is never the same type
  as anything, itself included.
\<close>

lemma is_same_type_null_confidence:
  "\<not> is_same_type
       (p\<lparr>ct_validLocales := Some [\<lparr>localeTag = Absent,
             headerRegExps = Some [\<lparr>regExp = r, confidence = Null, mandatory = m\<rparr>],
             matchEntries = None\<rparr>]\<rparr>) q"
  by (simp add: is_same_type_def norm_locales_def norm_locale_def norm_header_def)
















text \<open>The example type is valid, and the storing registry accepts its first submission.\<close>

lemma strip_ZIP: "strip ''ZIP'' = ''ZIP''"
  by (simp add: strip_def is_space_def)








subsection \<open>Fields that are null\<close>

text \<open>
  A \<^verbatim>\<open>regex\<close> type whose pattern is \<^verbatim>\<open>null\<close> raises in the base type, and a header
  pattern whose confidence is \<^verbatim>\<open>null\<close> is left out of the payload.
\<close>

lemma null_pattern_raises:
  "build_custom_type_payload (example_regex_type\<lparr>g_regexPattern := Null\<rparr>) = Inl AttributeError"
  by (simp add: build_custom_type_payload_def example_regex_type_def resolve_threshold_def
        raw_threshold_int_def determine_base_type_def truthy_def)

lemma null_confidence_dropped:
  "header_pattern_entry \<lparr>hp_regExp = Some ''zip'', hp_confidence = Null, hp_mandatory = None\<rparr> = []"
  by (simp add: header_pattern_entry_def Let_def)

text \<open>The members of a list are compared after upper-casing, accented letters included.\<close>

lemma list_members_accented:
  "list_members [Some [CHR 0xE9], Some [CHR 0xC9]] [] = [[0xC9]]"
  by (simp add: strip_def is_space_def upper_def upper_char_def lower_letters_def
        upper_letters_def Let_def)

section \<open>Verification of the scoring engine\<close>


lemma count_where_append: "count_where P (xs @ ys) = count_where P xs + count_where P ys"
  by (simp add: count_where_def)

lemma count_where_Cons: "count_where P (x # xs) = (if P x then 1 else 0) + count_where P xs"
  by (simp add: count_where_def)


lemma no_label_None: "no_label None"
  by (simp add: no_label_def truthy_def)

lemma ccd_details:
  "fst (compute_classification_details ps gt) =
     map (\<lambda>p. detail_of (fst p) (snd p) (the (gt (fst p)))) (filter (labelled gt) ps)"
  by (induction ps) (auto simp: labelled_def no_label_None split: prod.splits option.splits)

lemma ccd_excluded:
  "snd (compute_classification_details ps gt) =
     map fst (filter (\<lambda>p. \<not> labelled gt p) ps)"
  by (induction ps) (auto simp: labelled_def no_label_None split: prod.splits option.splits)

lemma score_unfold:
  "score ps gt = calculate_metric_scores (fst (compute_classification_details ps gt))
                   (length (snd (compute_classification_details ps gt)))"
  by (simp add: score_def split: prod.splits)




lemma aggregate_loop_eq:
  "aggregate_loop (s, ds) ms = (foldl add_counts s ms, ds @ concat (map details ms))"
  by (induction ms arbitrary: s ds) auto

lemma calc_append:
  "aggregate_metrics_list [calculate_metric_scores d1 e1, calculate_metric_scores d2 e2]
     = calculate_metric_scores (d1 @ d2) (e1 + e2)"
  by (simp add: aggregate_metrics_list_def aggregate_loop_eq add_counts_def sums_zero_def
       calculate_metric_scores_def Let_def count_where_append)

lemma agg_two:
  "aggregate_metrics_list [m1, m2] =
     (let correct_n = correct_predictions m1 + correct_predictions m2;
          tp = true_positives m1 + true_positives m2;
          fp = false_positives m1 + false_positives m2;
          fn = false_negatives m1 + false_negatives m2;
          total = total_columns m1 + total_columns m2;
          prec = ratio_or_zero tp (tp + fp);
          rec = ratio_or_zero tp (tp + fn)
      in \<lparr>accuracy = ratio_or_zero correct_n total, precision = prec, recall = rec,
          f1_score = f1_of prec rec,
          total_columns = total,
          excluded_columns = excluded_columns m1 + excluded_columns m2,
          correct_predictions = correct_n, true_positives = tp,
          false_positives = fp, false_negatives = fn,
          details = details m1 @ details m2\<rparr>)"
  by (simp add: aggregate_metrics_list_def aggregate_loop_eq add_counts_def sums_zero_def Let_def)

lemma ccd_restrict:
  "compute_classification_details ps gt = compute_classification_details ps (gt |` (fst ` set ps))"
proof -
  have "\<And>S. fst ` set ps \<subseteq> S \<Longrightarrow> compute_classification_details ps gt = compute_classification_details ps (gt |` S)"
    by (induction ps) (auto simp: restrict_map_def split: prod.splits option.splits)
  then show ?thesis by blast
qed


lemma ccd_upd:
  "col \<notin> fst ` set ps \<Longrightarrow> compute_classification_details ps (gt(col := v)) = compute_classification_details ps gt"
  by (induction ps) (auto split: prod.splits option.splits)

lemma ccd_lengths:
  "length (fst (compute_classification_details ps gt)) + length (snd (compute_classification_details ps gt)) = length ps"
  by (induction ps) (auto split: prod.splits option.splits)

lemma ccd_columns:
  "d \<in> set (fst (compute_classification_details ps gt)) \<Longrightarrow> column d \<in> fst ` set ps"
  unfolding ccd_details by (force simp: detail_of_def Let_def)

lemma ccd_correct:
  "d \<in> set (fst (compute_classification_details ps gt)) \<Longrightarrow>
     correct d = (predicted d = actual d) \<and> gt (column d) = Some (actual d) \<and> actual d \<noteq> [] \<and> actual d \<noteq> ''nan''"
  unfolding ccd_details by (auto simp: detail_of_def Let_def labelled_def no_label_def truthy_def split: option.splits)

lemma calc_fields:
  "total_columns (calculate_metric_scores ds e) = length ds"
  "excluded_columns (calculate_metric_scores ds e) = e"
  "details (calculate_metric_scores ds e) = ds"
  "true_positives (calculate_metric_scores ds e) = count_where (\<lambda>d. correct d \<and> predicted d \<noteq> ''NONE'') ds"
  "false_positives (calculate_metric_scores ds e) = count_where (\<lambda>d. \<not> correct d \<and> predicted d \<noteq> ''NONE'') ds"
  "false_negatives (calculate_metric_scores ds e) = count_where (\<lambda>d. \<not> correct d \<and> actual d \<noteq> ''NONE'') ds"
  "correct_predictions (calculate_metric_scores ds e) = count_where correct ds"
  by (simp_all add: calculate_metric_scores_def Let_def)


lemma score_fields:
  "total_columns (score ps gt) = length (fst (compute_classification_details ps gt))"
  "excluded_columns (score ps gt) = length (snd (compute_classification_details ps gt))"
  "details (score ps gt) = fst (compute_classification_details ps gt)"
  by (simp_all add: score_unfold calc_fields)

lemma ccd_append:
  "fst (compute_classification_details (ps1 @ ps2) gt) =
     fst (compute_classification_details ps1 gt) @ fst (compute_classification_details ps2 gt)"
  "snd (compute_classification_details (ps1 @ ps2) gt) =
     snd (compute_classification_details ps1 gt) @ snd (compute_classification_details ps2 gt)"
  by (simp_all add: ccd_details ccd_excluded)

subsection \<open>Per-column contribution to the counts\<close>

text \<open>
  Claim C1 (as amended). A scored column is an entry \<open>(col, cl)\<close> of the prediction map
  whose column has a usable ground-truth label \<open>a\<close>. Compared with the same map without
  that entry, it adds one to \<open>total_columns\<close>, nothing to \<open>excluded_columns\<close>, and
  \<^item> one true positive iff the prediction is correct and the predicted label is not \<open>NONE\<close>;
  \<^item> one false positive iff it is incorrect and the predicted label is not \<open>NONE\<close>;
  \<^item> one false negative iff it is incorrect and the actual label is not \<open>NONE\<close>.
  An incorrect column therefore counts at least once, as FP or as FN, and it counts as
  both when a label other than \<open>NONE\<close> was predicted and the actual label is not
  \<open>NONE\<close> either.
\<close>

theorem scored_column_contribution:
  assumes "gt col = Some a" and "a \<noteq> []" and "a \<noteq> ''nan''"
  shows "let p = predicted_type_of cl;
             ok = (p = a);
             m = score (ps1 @ (col, cl) # ps2) gt;
             m0 = score (ps1 @ ps2) gt
         in total_columns m = total_columns m0 + 1
          \<and> excluded_columns m = excluded_columns m0
          \<and> true_positives m = true_positives m0 + of_bool (ok \<and> p \<noteq> ''NONE'')
          \<and> false_positives m = false_positives m0 + of_bool (\<not> ok \<and> p \<noteq> ''NONE'')
          \<and> false_negatives m = false_negatives m0 + of_bool (\<not> ok \<and> a \<noteq> ''NONE'')
          \<and> (\<not> ok \<longrightarrow> p \<noteq> ''NONE'' \<or> a \<noteq> ''NONE'')"
proof -
  have one: "compute_classification_details ((col, cl) # ps2) gt =
               (detail_of col cl a # fst (compute_classification_details ps2 gt),
                snd (compute_classification_details ps2 gt))"
    using assms by (simp add: no_label_def truthy_def split: prod.splits)
  have ins:
    "fst (compute_classification_details (ps1 @ (col, cl) # ps2) gt) =
       fst (compute_classification_details ps1 gt) @ detail_of col cl a #
       fst (compute_classification_details ps2 gt)"
    "snd (compute_classification_details (ps1 @ (col, cl) # ps2) gt) =
       snd (compute_classification_details (ps1 @ ps2) gt)"
    "fst (compute_classification_details (ps1 @ ps2) gt) =
       fst (compute_classification_details ps1 gt) @ fst (compute_classification_details ps2 gt)"
    by (simp_all add: ccd_append one del: compute_classification_details.simps)
  have d: "predicted (detail_of col cl a) = predicted_type_of cl"
          "actual (detail_of col cl a) = a"
          "correct (detail_of col cl a) = (predicted_type_of cl = a)"
    by (simp_all add: detail_of_def Let_def)
  show ?thesis
    unfolding Let_def score_unfold calc_fields
    by (auto simp: ins count_where_append count_where_Cons d)
qed

text \<open>The theorem at the one-column map \<open>{A: X}\<close> with ground truth \<open>{A: Y}\<close>.\<close>

theorem scored_column_contribution_witness:
  "map_of [(''A'', ''Y'')] ''A'' = Some ''Y'' \<and> ''Y'' \<noteq> [] \<and> ''Y'' \<noteq> ''nan''
   \<and> total_columns (score ([] @ (''A'', \<lparr>semantic_type = Some ''X'', semanticType = None\<rparr>) # [])
                        (map_of [(''A'', ''Y'')]))
     = total_columns (score ([] @ []) (map_of [(''A'', ''Y'')])) + 1
   \<and> false_positives (score ([] @ (''A'', \<lparr>semantic_type = Some ''X'', semanticType = None\<rparr>) # [])
                          (map_of [(''A'', ''Y'')]))
     = false_positives (score ([] @ []) (map_of [(''A'', ''Y'')])) + 1
   \<and> false_negatives (score ([] @ (''A'', \<lparr>semantic_type = Some ''X'', semanticType = None\<rparr>) # [])
                          (map_of [(''A'', ''Y'')]))
     = false_negatives (score ([] @ []) (map_of [(''A'', ''Y'')])) + 1"
  using scored_column_contribution[of "map_of [(''A'', ''Y'')]" "''A''" "''Y''"
          "\<lparr>semantic_type = Some ''X'', semanticType = None\<rparr>" "[]" "[]"]
  by (simp add: Let_def predicted_type_of_def py_or_def truthy_def)

text \<open>
  Claim C1 as stated says that an incorrectly classified column counts as exactly one of
  FP or FN. The column \<open>A\<close>, predicted \<open>X\<close> with ground truth \<open>Y\<close>, is counted as a
  false positive and as a false negative.
\<close>

theorem wrong_prediction_counts_twice:
  "false_positives (score [(''A'', \<lparr>semantic_type = Some ''X'', semanticType = None\<rparr>)]
                          (map_of [(''A'', ''Y'')])) = 1
   \<and> false_negatives (score [(''A'', \<lparr>semantic_type = Some ''X'', semanticType = None\<rparr>)]
                            (map_of [(''A'', ''Y'')])) = 1"
  by (simp add: score_unfold calc_fields count_where_def no_label_def truthy_def
        detail_of_def predicted_type_of_def py_or_def)

subsection \<open>Aggregation\<close>

text \<open>
  Claim C8. Aggregating two metric sets adds their six integer counts, concatenates
  their detail lists and computes accuracy, precision, recall and F1 from the added
  counts, with the formulas of the scorer (no per-file ratio is read). Hence the
  aggregate of two scored runs is the metric set of scoring the concatenated details
  with the added excluded counts: all counts, all ratios and the details agree.
\<close>

theorem aggregation_additive:
  "aggregate_metrics_list [m1, m2] =
     (let correct_n = correct_predictions m1 + correct_predictions m2;
          tp = true_positives m1 + true_positives m2;
          fp = false_positives m1 + false_positives m2;
          fn = false_negatives m1 + false_negatives m2;
          total = total_columns m1 + total_columns m2;
          prec = ratio_or_zero tp (tp + fp);
          rec = ratio_or_zero tp (tp + fn)
      in \<lparr>accuracy = ratio_or_zero correct_n total, precision = prec, recall = rec,
          f1_score = f1_of prec rec,
          total_columns = total,
          excluded_columns = excluded_columns m1 + excluded_columns m2,
          correct_predictions = correct_n, true_positives = tp,
          false_positives = fp, false_negatives = fn,
          details = details m1 @ details m2\<rparr>)
   \<and> aggregate_metrics_list [calculate_metric_scores d1 e1, calculate_metric_scores d2 e2]
       = calculate_metric_scores (d1 @ d2) (e1 + e2)"
  using agg_two[of m1 m2] calc_append[of d1 e1 d2 e2] by simp

text \<open>The theorem at two one-column runs.\<close>

theorem aggregation_additive_witness:
  "aggregate_metrics_list
     [calculate_metric_scores [\<lparr>column = ''A'', predicted = ''X'', actual = ''X'', correct = True\<rparr>] 1,
      calculate_metric_scores [\<lparr>column = ''B'', predicted = ''NONE'', actual = ''Y'', correct = False\<rparr>] 0]
   = calculate_metric_scores
       ([\<lparr>column = ''A'', predicted = ''X'', actual = ''X'', correct = True\<rparr>] @
        [\<lparr>column = ''B'', predicted = ''NONE'', actual = ''Y'', correct = False\<rparr>]) (1 + 0)"
  using aggregation_additive[of
      "calculate_metric_scores [\<lparr>column = ''A'', predicted = ''X'', actual = ''X'', correct = True\<rparr>] 1"
      "calculate_metric_scores [\<lparr>column = ''B'', predicted = ''NONE'', actual = ''Y'', correct = False\<rparr>] 0"
      "[\<lparr>column = ''A'', predicted = ''X'', actual = ''X'', correct = True\<rparr>]" 1
      "[\<lparr>column = ''B'', predicted = ''NONE'', actual = ''Y'', correct = False\<rparr>]" 0]
  by blast

subsection \<open>Order of the prediction map\<close>




subsection \<open>Columns without prediction\<close>

text \<open>
  Claim C10. A column \<open>col\<close> that is not a key of the prediction map contributes to
  nothing: the metric set is the same whether the ground truth labels \<open>col\<close> or does
  not mention it; scored and excluded columns together are exactly the entries of the
  prediction map; and no detail is about \<open>col\<close>.
\<close>

theorem unpredicted_column_not_counted:
  assumes "col \<notin> fst ` set preds"
  shows "score preds (gt(col \<mapsto> label)) = score preds (gt(col := None))
       \<and> total_columns (score preds gt) + excluded_columns (score preds gt) = length preds
       \<and> (\<forall>d \<in> set (details (score preds gt)). column d \<noteq> col)"
proof -
  have "score preds (gt(col \<mapsto> label)) = score preds (gt(col := None))"
    by (simp add: score_unfold ccd_upd[OF assms])
  moreover have "total_columns (score preds gt) + excluded_columns (score preds gt) = length preds"
    by (simp add: score_fields ccd_lengths)
  moreover have "\<forall>d \<in> set (details (score preds gt)). column d \<noteq> col"
    using assms ccd_columns[of _ preds gt] by (auto simp: score_fields)
  ultimately show ?thesis by blast
qed

text \<open>The theorem at the map \<open>{A: X}\<close> and the unpredicted column \<open>B\<close>.\<close>

theorem unpredicted_column_not_counted_witness:
  "''B'' \<notin> fst ` set [(''A'', \<lparr>semantic_type = Some ''X'', semanticType = None\<rparr>)]
   \<and> score [(''A'', \<lparr>semantic_type = Some ''X'', semanticType = None\<rparr>)]
        ((map_of [(''A'', ''X'')])(''B'' \<mapsto> ''Z''))
     = score [(''A'', \<lparr>semantic_type = Some ''X'', semanticType = None\<rparr>)]
        ((map_of [(''A'', ''X'')])(''B'' := None))"
proof -
  have h: "''B'' \<notin> fst ` set [(''A'', \<lparr>semantic_type = Some ''X'', semanticType = None\<rparr>)]"
    by simp
  from unpredicted_column_not_counted[OF h, of "map_of [(''A'', ''X'')]" "''Z''"] h
  show ?thesis by blast
qed


end
